theory Spec2Isabelle
  imports Complex_Main "HOL-Library.Sublist" "HOL-Library.Multiset"
begin

section \<open>Data model of \<open>backend/server.py\<close>\<close>

text \<open>
  A \<open>datetime\<close> is a point in time, counted in microseconds from the epoch (UTC), so
  that comparison is comparison of integers and \<open>timedelta(days=n)\<close> is an integer.
  Amounts are Python floats. They are kept as a type parameter \<open>'a\<close> with \<open>0\<close>, \<open>+\<close> and
  \<open>-\<close> and no law of arithmetic at all: every sum below is taken in the order in which
  the code adds, and nothing proved here uses associativity or commutativity.
\<close>

type_synonym datetime = int

definition timedelta_days :: "int \<Rightarrow> int" where
  "timedelta_days n = n * 86400 * 1000000"

text \<open>The pydantic models \<open>User\<close>, \<open>UserSession\<close>, \<open>Transaction\<close>, \<open>TransactionCreate\<close>,
  \<open>TransactionUpdate\<close> and \<open>DashboardStats\<close>. Field names carry a prefix, since record
  fields share one name space.\<close>

record user =
  u_id :: string
  u_email :: string
  u_name :: string
  u_picture :: string
  u_created_at :: datetime

record user_session =
  s_id :: string
  s_user_id :: string
  s_session_token :: string
  s_expires_at :: datetime
  s_created_at :: datetime

record 'a transaction =
  t_id :: string
  t_user_id :: string
  t_type :: string
  t_amount :: 'a
  t_category :: string
  t_description :: string
  t_date :: datetime
  t_created_at :: datetime

record 'a transaction_create =
  tc_type :: string
  tc_amount :: 'a
  tc_category :: string
  tc_description :: string
  tc_date :: datetime

record 'a transaction_update =
  tu_type :: "string option"
  tu_amount :: "'a option"
  tu_category :: "string option"
  tu_description :: "string option"
  tu_date :: "datetime option"

record 'a dashboard_stats =
  total_income :: 'a
  total_expenses :: 'a
  balance :: 'a
  transactions_count :: nat
  category_breakdown :: "string \<rightharpoonup> 'a"

text \<open>The value of one month in the result of the monthly analytics:
  \<open>{"income": ..., "expenses": ...}\<close>.\<close>

record 'a month_totals =
  income :: 'a
  expenses :: 'a

text \<open>The database \<open>db\<close>: the three collections the code uses, each a list of documents
  in insertion order.\<close>

record 'a db =
  users :: "user list"
  user_sessions :: "user_session list"
  transactions :: "'a transaction list"

text \<open>A request: its cookies and its headers, the headers under their lower-case names
  (header lookup ignores case).\<close>

record request =
  cookies :: "string \<rightharpoonup> string"
  headers :: "string \<rightharpoonup> string"

text \<open>\<open>HTTPException(status_code, detail)\<close>; an exception no handler catches
  (\<open>ValueError\<close>, \<open>KeyError\<close>) ends the request as an internal server error.\<close>

datatype http_error = HTTPException nat string | UnhandledException string

section \<open>The collection operations\<close>

text \<open>\<open>find_one\<close> is the first document that matches, \<open>insert_one\<close> appends,
  \<open>delete_one\<close> removes the first match and reports \<open>deleted_count\<close>, \<open>update_one\<close>
  rewrites the first match, \<open>to_list(n)\<close> keeps the first \<open>n\<close> documents of a cursor and
  \<open>sort("date", -1)\<close> orders a cursor by date, latest first.\<close>

definition find_one :: "('d \<Rightarrow> bool) \<Rightarrow> 'd list \<Rightarrow> 'd option" where
  "find_one P ds = List.find P ds"

definition insert_one :: "'d \<Rightarrow> 'd list \<Rightarrow> 'd list" where
  "insert_one d ds = ds @ [d]"

fun delete_one :: "('d \<Rightarrow> bool) \<Rightarrow> 'd list \<Rightarrow> 'd list \<times> nat" where
  "delete_one P [] = ([], 0)"
| "delete_one P (d # ds) =
     (if P d then (ds, 1) else (case delete_one P ds of (ds', n) \<Rightarrow> (d # ds', n)))"

fun update_one :: "('d \<Rightarrow> bool) \<Rightarrow> ('d \<Rightarrow> 'd) \<Rightarrow> 'd list \<Rightarrow> 'd list" where
  "update_one P f [] = []"
| "update_one P f (d # ds) = (if P d then f d # ds else d # update_one P f ds)"

definition to_list :: "nat \<Rightarrow> 'd list \<Rightarrow> 'd list" where
  "to_list n ds = take n ds"

definition sort_date_desc :: "'a transaction list \<Rightarrow> 'a transaction list" where
  "sort_date_desc ts = sort_key (\<lambda>t. - t_date t) ts"

section \<open>Strings\<close>

text \<open>\<open>s.replace(old, new)\<close> for a non-empty \<open>old\<close>: the occurrences of \<open>old\<close> are
  found from the left, without overlap. (The code calls it with \<open>"Bearer "\<close> and \<open>'Z'\<close>
  only; for an empty \<open>old\<close> the function here leaves the string as it is.)\<close>

fun py_replace :: "string \<Rightarrow> string \<Rightarrow> string \<Rightarrow> string" where
  "py_replace [] old new = []"
| "py_replace (c # cs) old new =
     (if old \<noteq> [] \<and> prefix old (c # cs)
      then new @ py_replace (drop (length old) (c # cs)) old new
      else c # py_replace cs old new)"

section \<open>Authentication\<close>

text \<open>The expression both \<open>get_current_user\<close> and \<open>logout\<close> start with:
  \<^verbatim>\<open>request.cookies.get("session_token") or
    request.headers.get("authorization", "").replace("Bearer ", "")\<close>.
  A missing or empty cookie is falsy, and then the header decides.\<close>

definition authorization :: "request \<Rightarrow> string" where
  "authorization req = (case headers req ''authorization'' of None \<Rightarrow> [] | Some h \<Rightarrow> h)"

definition session_token_of :: "request \<Rightarrow> string" where
  "session_token_of req =
     (case cookies req ''session_token'' of
        None \<Rightarrow> py_replace (authorization req) ''Bearer '' []
      | Some c \<Rightarrow> if c \<noteq> [] then c else py_replace (authorization req) ''Bearer '' [])"

definition get_current_user :: "request \<Rightarrow> datetime \<Rightarrow> 'a db \<Rightarrow> user option" where
  "get_current_user req now d =
     (let session_token = session_token_of req in
      if session_token = [] then None
      else
        (case find_one (\<lambda>s. s_session_token s = session_token \<and> now < s_expires_at s)
                (user_sessions d) of
           None \<Rightarrow> None
         | Some session \<Rightarrow> find_one (\<lambda>u. u_id u = s_user_id session) (users d)))"

definition not_authenticated :: http_error where
  "not_authenticated = HTTPException 401 ''Not authenticated''"

definition transaction_not_found :: http_error where
  "transaction_not_found = HTTPException 404 ''Transaction not found''"

text \<open>\<open>GET /auth/me\<close>.\<close>

definition get_current_user_info :: "request \<Rightarrow> datetime \<Rightarrow> 'a db \<Rightarrow> http_error + user" where
  "get_current_user_info req now d =
     (case get_current_user req now d of
        None \<Rightarrow> Inl not_authenticated
      | Some user \<Rightarrow> Inr user)"

text \<open>\<open>GET /auth/session-data\<close>. The identity provider is a parameter: what its
  session-data endpoint answers to a session id, either a transport failure
  (\<open>httpx.RequestError\<close>) or a status code with a JSON object. The values the default
  factories draw (\<open>uuid4()\<close>, \<open>datetime.now\<close>) and the clock read for \<open>expires_at\<close> are
  inputs too. \<open>user_data[k]\<close> on a missing key raises \<open>KeyError\<close>, which no handler
  catches; a user inserted before that stays inserted. \<open>subscript\<close> is \<open>user_data[k]\<close>, and
  \<open>create_session\<close> is the part of the handler from the comment \<open># Create session\<close> on,
  which both branches reach.\<close>

datatype provider_reply = RequestError | Reply nat "string \<rightharpoonup> string"

record login_env =
  new_user_id :: string
  new_user_created_at :: datetime
  expires_now :: datetime
  new_session_id :: string
  new_session_created_at :: datetime

record login_response =
  lr_user :: user
  lr_session_token :: string

definition subscript :: "(string \<rightharpoonup> string) \<Rightarrow> string \<Rightarrow> http_error + string" where
  "subscript user_data k =
     (case user_data k of None \<Rightarrow> Inl (UnhandledException ''KeyError'') | Some v \<Rightarrow> Inr v)"

definition create_session ::
  "login_env \<Rightarrow> (string \<rightharpoonup> string) \<Rightarrow> user \<Rightarrow> 'a db \<Rightarrow> (http_error + login_response) \<times> 'a db" where
  "create_session env user_data user d =
     (case subscript user_data ''session_token'' of
        Inl e \<Rightarrow> (Inl e, d)
      | Inr session_token \<Rightarrow>
          (let expires_at = expires_now env + timedelta_days 7;
               user_session = \<lparr>s_id = new_session_id env, s_user_id = u_id user,
                                s_session_token = session_token, s_expires_at = expires_at,
                                s_created_at = new_session_created_at env\<rparr>
           in (Inr \<lparr>lr_user = user, lr_session_token = session_token\<rparr>,
               d\<lparr>user_sessions := insert_one user_session (user_sessions d)\<rparr>)))"

definition get_session_data ::
  "(string \<Rightarrow> provider_reply) \<Rightarrow> login_env \<Rightarrow> request \<Rightarrow> 'a db
     \<Rightarrow> (http_error + login_response) \<times> 'a db" where
  "get_session_data provider env req d =
     (case headers req ''x-session-id'' of
        None \<Rightarrow> (Inl (HTTPException 400 ''Session ID required''), d)
      | Some session_id \<Rightarrow>
          if session_id = [] then (Inl (HTTPException 400 ''Session ID required''), d)
          else
            (case provider session_id of
               RequestError \<Rightarrow> (Inl (HTTPException 500 ''Authentication service error''), d)
             | Reply status_code user_data \<Rightarrow>
                 if status_code \<noteq> 200 then (Inl (HTTPException 401 ''Invalid session''), d)
                 else
                   (case subscript user_data ''email'' of
                      Inl e \<Rightarrow> (Inl e, d)
                    | Inr email \<Rightarrow>
                        (case find_one (\<lambda>u. u_email u = email) (users d) of
                           None \<Rightarrow>
                             (case subscript user_data ''name'' of
                                Inl e \<Rightarrow> (Inl e, d)
                              | Inr name \<Rightarrow>
                                  (case subscript user_data ''picture'' of
                                     Inl e \<Rightarrow> (Inl e, d)
                                   | Inr picture \<Rightarrow>
                                       (let new_user = \<lparr>u_id = new_user_id env, u_email = email,
                                                         u_name = name, u_picture = picture,
                                                         u_created_at = new_user_created_at env\<rparr>
                                        in create_session env user_data new_user
                                             (d\<lparr>users := insert_one new_user (users d)\<rparr>))))
                         | Some existing_user \<Rightarrow>
                             create_session env user_data existing_user d))))"

text \<open>\<open>POST /auth/logout\<close>. The response carries the message and the cookie it clears.\<close>

record logout_response =
  message :: string
  deleted_cookie :: string

definition logged_out :: logout_response where
  "logged_out = \<lparr>message = ''Logged out successfully'', deleted_cookie = ''session_token''\<rparr>"

definition logout :: "request \<Rightarrow> 'a db \<Rightarrow> (http_error + logout_response) \<times> 'a db" where
  "logout req d =
     (let session_token = session_token_of req;
          d' = (if session_token \<noteq> []
                then d\<lparr>user_sessions :=
                         fst (delete_one (\<lambda>s. s_session_token s = session_token) (user_sessions d))\<rparr>
                else d)
      in (Inr logged_out, d'))"

section \<open>Transactions\<close>

text \<open>The store holds a datetime as a whole number of milliseconds: when the driver
  encodes a document, the microseconds below the millisecond are dropped. This decides
  what a read returns after a create, so it is written out for the documents that
  \<open>create_transaction\<close> inserts.\<close>

definition bson_datetime :: "datetime \<Rightarrow> datetime" where
  "bson_datetime dt = dt - dt mod 1000"

definition bson_transaction :: "'a transaction \<Rightarrow> 'a transaction" where
  "bson_transaction t =
     t\<lparr>t_date := bson_datetime (t_date t), t_created_at := bson_datetime (t_created_at t)\<rparr>"

text \<open>\<open>POST /transactions\<close>; \<open>new_id\<close> and \<open>created_now\<close> are what the default factories
  of \<open>Transaction\<close> draw. The handler returns the object it built; the store receives its
  encoding.\<close>

definition create_transaction ::
  "string \<Rightarrow> datetime \<Rightarrow> 'a transaction_create \<Rightarrow> request \<Rightarrow> datetime \<Rightarrow> 'a db
     \<Rightarrow> (http_error + 'a transaction) \<times> 'a db" where
  "create_transaction new_id created_now transaction_data req now d =
     (case get_current_user req now d of
        None \<Rightarrow> (Inl not_authenticated, d)
      | Some user \<Rightarrow>
          (let transaction = \<lparr>t_id = new_id, t_user_id = u_id user,
                              t_type = tc_type transaction_data,
                              t_amount = tc_amount transaction_data,
                              t_category = tc_category transaction_data,
                              t_description = tc_description transaction_data,
                              t_date = tc_date transaction_data,
                              t_created_at = created_now\<rparr>
           in (Inr transaction,
               d\<lparr>transactions := insert_one (bson_transaction transaction) (transactions d)\<rparr>)))"

text \<open>\<open>GET /transactions\<close>. A filter that is missing or the empty string is falsy and is
  not applied. \<open>datetime.fromisoformat\<close> is a parameter; \<open>None\<close> is its \<open>ValueError\<close>, which
  no handler catches. The start bound is parsed before the end bound. \<open>date_bound\<close> is one
  of the two \<open>if\<close> statements that fill \<open>date_query\<close>, and \<open>list_query\<close> is the finished
  \<open>query\<close> as a predicate on documents.\<close>

definition truthy :: "string option \<Rightarrow> bool" where
  "truthy s = (case s of None \<Rightarrow> False | Some v \<Rightarrow> v \<noteq> [])"

definition date_bound ::
  "(string \<Rightarrow> datetime option) \<Rightarrow> string option \<Rightarrow> http_error + datetime option" where
  "date_bound fromisoformat s =
     (case s of
        None \<Rightarrow> Inr None
      | Some v \<Rightarrow>
          if v = [] then Inr None
          else (case fromisoformat (py_replace v ''Z'' ''+00:00'') of
                  None \<Rightarrow> Inl (UnhandledException ''ValueError'')
                | Some dt \<Rightarrow> Inr (Some dt)))"

definition list_query ::
  "string \<Rightarrow> string option \<Rightarrow> datetime option \<Rightarrow> datetime option \<Rightarrow> 'a transaction \<Rightarrow> bool" where
  "list_query uid category gte lte t =
     (t_user_id t = uid
      \<and> (case category of None \<Rightarrow> True | Some c \<Rightarrow> if c \<noteq> [] then t_category t = c else True)
      \<and> (case gte of None \<Rightarrow> True | Some lo \<Rightarrow> lo \<le> t_date t)
      \<and> (case lte of None \<Rightarrow> True | Some hi \<Rightarrow> t_date t \<le> hi))"

definition get_transactions ::
  "(string \<Rightarrow> datetime option) \<Rightarrow> request \<Rightarrow> datetime \<Rightarrow> string option \<Rightarrow> string option
     \<Rightarrow> string option \<Rightarrow> 'a db \<Rightarrow> http_error + 'a transaction list" where
  "get_transactions fromisoformat req now category start_date end_date d =
     (case get_current_user req now d of
        None \<Rightarrow> Inl not_authenticated
      | Some user \<Rightarrow>
          (case date_bound fromisoformat start_date of
             Inl e \<Rightarrow> Inl e
           | Inr gte \<Rightarrow>
               (case date_bound fromisoformat end_date of
                  Inl e \<Rightarrow> Inl e
                | Inr lte \<Rightarrow>
                    Inr (to_list 1000 (sort_date_desc
                          (filter (list_query (u_id user) category gte lte) (transactions d)))))))"

text \<open>\<open>GET\<close>, \<open>PUT\<close> and \<open>DELETE /transactions/{transaction_id}\<close>. All three look the
  document up under \<open>{"id": transaction_id, "user_id": user.id}\<close>.\<close>

definition owned_by :: "string \<Rightarrow> string \<Rightarrow> 'a transaction \<Rightarrow> bool" where
  "owned_by transaction_id uid t = (t_id t = transaction_id \<and> t_user_id t = uid)"

definition get_transaction ::
  "string \<Rightarrow> request \<Rightarrow> datetime \<Rightarrow> 'a db \<Rightarrow> http_error + 'a transaction" where
  "get_transaction transaction_id req now d =
     (case get_current_user req now d of
        None \<Rightarrow> Inl not_authenticated
      | Some user \<Rightarrow>
          (case find_one (owned_by transaction_id (u_id user)) (transactions d) of
             None \<Rightarrow> Inl transaction_not_found
           | Some transaction \<Rightarrow> Inr transaction))"

text \<open>\<open>update_data\<close> keeps the fields of the payload that are not \<open>None\<close>; \<open>$set\<close> writes
  them into the document.\<close>

definition set_fields :: "'a transaction_update \<Rightarrow> 'a transaction \<Rightarrow> 'a transaction" where
  "set_fields u t =
     t\<lparr>t_type := (case tu_type u of None \<Rightarrow> t_type t | Some v \<Rightarrow> v),
       t_amount := (case tu_amount u of None \<Rightarrow> t_amount t | Some v \<Rightarrow> v),
       t_category := (case tu_category u of None \<Rightarrow> t_category t | Some v \<Rightarrow> v),
       t_description := (case tu_description u of None \<Rightarrow> t_description t | Some v \<Rightarrow> v),
       t_date := (case tu_date u of None \<Rightarrow> t_date t | Some v \<Rightarrow> v)\<rparr>"

definition no_fields :: "'a transaction_update \<Rightarrow> bool" where
  "no_fields u = (tu_type u = None \<and> tu_amount u = None \<and> tu_category u = None
                  \<and> tu_description u = None \<and> tu_date u = None)"

definition update_transaction ::
  "string \<Rightarrow> 'a transaction_update \<Rightarrow> request \<Rightarrow> datetime \<Rightarrow> 'a db
     \<Rightarrow> (http_error + 'a transaction) \<times> 'a db" where
  "update_transaction transaction_id transaction_data req now d =
     (case get_current_user req now d of
        None \<Rightarrow> (Inl not_authenticated, d)
      | Some user \<Rightarrow>
          (case find_one (owned_by transaction_id (u_id user)) (transactions d) of
             None \<Rightarrow> (Inl transaction_not_found, d)
           | Some existing \<Rightarrow>
               (let d' = (if \<not> no_fields transaction_data
                          then d\<lparr>transactions :=
                                   update_one (owned_by transaction_id (u_id user))
                                     (set_fields transaction_data) (transactions d)\<rparr>
                          else d)
                in (case find_one (owned_by transaction_id (u_id user)) (transactions d') of
                      None \<Rightarrow> (Inl (UnhandledException ''TypeError''), d')
                    | Some updated_transaction \<Rightarrow> (Inr updated_transaction, d')))))"

definition delete_transaction ::
  "string \<Rightarrow> request \<Rightarrow> datetime \<Rightarrow> 'a db \<Rightarrow> (http_error + string) \<times> 'a db" where
  "delete_transaction transaction_id req now d =
     (case get_current_user req now d of
        None \<Rightarrow> (Inl not_authenticated, d)
      | Some user \<Rightarrow>
          (case delete_one (owned_by transaction_id (u_id user)) (transactions d) of
             (ts', deleted_count) \<Rightarrow>
               if deleted_count = 0 then (Inl transaction_not_found, d\<lparr>transactions := ts'\<rparr>)
               else (Inr ''Transaction deleted successfully'', d\<lparr>transactions := ts'\<rparr>)))"

section \<open>Aggregation\<close>

text \<open>\<open>sum(...)\<close> starts from \<open>0\<close> and adds from the left.\<close>

definition py_sum :: "'a list \<Rightarrow> 'a::{zero,plus}" where
  "py_sum xs = foldl (+) 0 xs"

text \<open>The loop that fills \<open>category_breakdown\<close>: a category that is not yet a key gets
  \<open>0\<close>, then the amount is added to the entry.\<close>

fun category_loop ::
  "(string \<rightharpoonup> 'a) \<Rightarrow> ('a::{zero,plus}) transaction list \<Rightarrow> (string \<rightharpoonup> 'a)" where
  "category_loop cb [] = cb"
| "category_loop cb (t # ts) =
     (let category = t_category t;
          entry = (case cb category of None \<Rightarrow> 0 | Some v \<Rightarrow> v)
      in category_loop (cb(category \<mapsto> entry + t_amount t)) ts)"

text \<open>The query \<open>{"user_id": user.id}\<close>.\<close>

definition user_transactions :: "string \<Rightarrow> 'a db \<Rightarrow> 'a transaction list" where
  "user_transactions uid d = filter (\<lambda>t. t_user_id t = uid) (transactions d)"

definition get_dashboard_stats ::
  "request \<Rightarrow> datetime \<Rightarrow> ('a::{zero,plus,minus}) db \<Rightarrow> http_error + 'a dashboard_stats" where
  "get_dashboard_stats req now d =
     (case get_current_user req now d of
        None \<Rightarrow> Inl not_authenticated
      | Some user \<Rightarrow>
          (let ts = to_list 1000 (user_transactions (u_id user) d);
               total_income = py_sum (map t_amount (filter (\<lambda>t. t_type t = ''income'') ts));
               total_expenses = py_sum (map t_amount (filter (\<lambda>t. t_type t = ''expense'') ts));
               balance = total_income - total_expenses
           in Inr \<lparr>total_income = total_income, total_expenses = total_expenses,
                    balance = balance, transactions_count = length ts,
                    category_breakdown = category_loop Map.empty ts\<rparr>))"

text \<open>The loop that fills \<open>monthly_data\<close>. \<open>strftime\<close> stands for
  \<open>transaction["date"].strftime("%Y-%m")\<close>. A type other than \<open>"income"\<close> takes the
  \<open>else\<close> branch.\<close>

fun monthly_loop ::
  "(datetime \<Rightarrow> string) \<Rightarrow> (string \<rightharpoonup> 'a month_totals) \<Rightarrow> ('a::{zero,plus}) transaction list
     \<Rightarrow> (string \<rightharpoonup> 'a month_totals)" where
  "monthly_loop strftime monthly_data [] = monthly_data"
| "monthly_loop strftime monthly_data (t # ts) =
     (let month_key = strftime (t_date t);
          entry = (case monthly_data month_key of
                     None \<Rightarrow> \<lparr>income = 0, expenses = 0\<rparr>
                   | Some e \<Rightarrow> e);
          entry' = (if t_type t = ''income''
                    then entry\<lparr>income := income entry + t_amount t\<rparr>
                    else entry\<lparr>expenses := expenses entry + t_amount t\<rparr>)
      in monthly_loop strftime (monthly_data(month_key \<mapsto> entry')) ts)"

text \<open>The query \<open>{"user_id": user.id, "date": {"$gte": start_date, "$lte": end_date}}\<close>
  with \<open>start_date = end_date - timedelta(days=365)\<close>.\<close>

definition in_window :: "string \<Rightarrow> datetime \<Rightarrow> 'a transaction \<Rightarrow> bool" where
  "in_window uid end_date t =
     (t_user_id t = uid \<and> end_date - timedelta_days 365 \<le> t_date t \<and> t_date t \<le> end_date)"

text \<open>\<open>GET /analytics/monthly\<close>; \<open>now\<close> is the clock when the session is checked,
  \<open>end_date\<close> the clock read that follows.\<close>

definition get_monthly_analytics ::
  "(datetime \<Rightarrow> string) \<Rightarrow> request \<Rightarrow> datetime \<Rightarrow> datetime \<Rightarrow> ('a::{zero,plus}) db
     \<Rightarrow> http_error + (string \<rightharpoonup> 'a month_totals)" where
  "get_monthly_analytics strftime req now end_date d =
     (case get_current_user req now d of
        None \<Rightarrow> Inl not_authenticated
      | Some user \<Rightarrow>
          Inr (monthly_loop strftime Map.empty
                 (to_list 1000 (filter (in_window (u_id user) end_date) (transactions d)))))"

text \<open>A \<open>strftime("%Y-%m")\<close> to run the analytics with: the year and month of the
  proleptic Gregorian calendar, for years 1000 to 9999.\<close>

definition civil_year_month :: "int \<Rightarrow> int \<times> int" where
  "civil_year_month days =
     (let z = days + 719468;
          era = z div 146097;
          doe = z - era * 146097;
          yoe = (doe - doe div 1460 + doe div 36524 - doe div 146096) div 365;
          doy = doe - (365 * yoe + yoe div 4 - yoe div 100);
          mp = (5 * doy + 2) div 153;
          m = (if mp < 10 then mp + 3 else mp - 9);
          y = yoe + era * 400 + (if m \<le> 2 then 1 else 0)
      in (y, m))"

definition digit :: "int \<Rightarrow> char" where
  "digit n = ''0123456789'' ! nat (n mod 10)"

definition strftime_Ym :: "datetime \<Rightarrow> string" where
  "strftime_Ym dt =
     (case civil_year_month (dt div 86400000000) of
        (y, m) \<Rightarrow> [digit (y div 1000), digit (y div 100), digit (y div 10), digit y,
                   CHR ''-'', digit (m div 10), digit m])"

section \<open>The invariant of the session store\<close>

text \<open>Every session row refers to a user row. Users are never deleted, and a session is
  only ever inserted for a user that was just found or just inserted, so every operation
  keeps this (the lemmas \<open>..._keeps\<close> below).\<close>

definition sessions_reference_users :: "'a db \<Rightarrow> bool" where
  "sessions_reference_users d =
     list_all (\<lambda>s. list_ex (\<lambda>u. u_id u = s_user_id s) (users d)) (user_sessions d)"

section \<open>Notions the statements use\<close>

text \<open>The store in which no transaction at all carries the given id: what a caller who
  is refused is compared with.\<close>

definition without_id :: "string \<Rightarrow> 'a db \<Rightarrow> 'a db" where
  "without_id transaction_id d =
     d\<lparr>transactions := filter (\<lambda>t. t_id t \<noteq> transaction_id) (transactions d)\<rparr>"

text \<open>The transactions the monthly analytics works on, and those among a list that fall
  into the month \<open>k\<close>.\<close>

definition windowed :: "string \<Rightarrow> datetime \<Rightarrow> 'a db \<Rightarrow> 'a transaction list" where
  "windowed uid end_date d = take 1000 (filter (in_window uid end_date) (transactions d))"

definition bucket ::
  "(datetime \<Rightarrow> string) \<Rightarrow> string \<Rightarrow> 'a transaction list \<Rightarrow> 'a transaction list" where
  "bucket strftime k ts = filter (\<lambda>t. strftime (t_date t) = k) ts"

text \<open>A list of rows in which no row is dated later than a row before it.\<close>

definition date_descending :: "'a transaction list \<Rightarrow> bool" where
  "date_descending rows = sorted_wrt (\<lambda>a b. t_date b \<le> t_date a) rows"

text \<open>Two readings of a response: the \<open>transactions_count\<close> of the dashboard, and the entry
  of one month in the monthly analytics.\<close>

definition count_of :: "http_error + 'a dashboard_stats \<Rightarrow> http_error + nat" where
  "count_of r = map_sum id transactions_count r"

definition at_month ::
  "string \<Rightarrow> http_error + (string \<rightharpoonup> 'a month_totals) \<Rightarrow> http_error + 'a month_totals option" where
  "at_month k r = map_sum id (\<lambda>monthly_data. monthly_data k) r"

section \<open>Example data\<close>

definition alice :: user where
  "alice = \<lparr>u_id = ''u-alice'', u_email = ''alice@example.com'', u_name = ''Alice'',
            u_picture = ''https://example.com/alice.png'', u_created_at = 1700000000000000\<rparr>"

definition bob :: user where
  "bob = \<lparr>u_id = ''u-bob'', u_email = ''bob@example.com'', u_name = ''Bob'',
          u_picture = ''https://example.com/bob.png'', u_created_at = 1700000000000001\<rparr>"

definition alice_session :: user_session where
  "alice_session = \<lparr>s_id = ''s-1'', s_user_id = ''u-alice'', s_session_token = ''tok-alice'',
                    s_expires_at = 1709700000000000, s_created_at = 1709095200000000\<rparr>"

definition bob_session :: user_session where
  "bob_session = \<lparr>s_id = ''s-2'', s_user_id = ''u-bob'', s_session_token = ''tok-bob'',
                  s_expires_at = 1709700000000001, s_created_at = 1709095200000001\<rparr>"

definition lunch :: "real transaction" where
  "lunch = \<lparr>t_id = ''t-1'', t_user_id = ''u-alice'', t_type = ''expense'', t_amount = 50,
            t_category = ''Food'', t_description = ''Lunch'', t_date = 1706000000000000,
            t_created_at = 1706000000000500\<rparr>"

definition salary :: "real transaction" where
  "salary = \<lparr>t_id = ''t-2'', t_user_id = ''u-alice'', t_type = ''income'', t_amount = 2000,
             t_category = ''Salary'', t_description = ''Pay'', t_date = 1709000000000000,
             t_created_at = 1709000000000500\<rparr>"

definition coffee :: "real transaction" where
  "coffee = \<lparr>t_id = ''t-3'', t_user_id = ''u-alice'', t_type = ''expense'', t_amount = 20,
             t_category = ''Food'', t_description = ''Coffee'', t_date = 1708000000000000,
             t_created_at = 1708000000000500\<rparr>"

definition rent :: "real transaction" where
  "rent = \<lparr>t_id = ''t-4'', t_user_id = ''u-bob'', t_type = ''expense'', t_amount = 900,
           t_category = ''Rent'', t_description = ''March'', t_date = 1709000000000000,
           t_created_at = 1709000000000700\<rparr>"

definition example_db :: "real db" where
  "example_db = \<lparr>users = [alice, bob], user_sessions = [alice_session, bob_session],
                 transactions = [lunch, salary, rent, coffee]\<rparr>"

definition alice_request :: request where
  "alice_request = \<lparr>cookies = Map.empty, headers = [''authorization'' \<mapsto> ''Bearer tok-alice'']\<rparr>"

definition example_now :: datetime where
  "example_now = 1709164800000000"

definition raw_header_request :: request where
  "raw_header_request = \<lparr>cookies = Map.empty, headers = [''authorization'' \<mapsto> ''tok-alice'']\<rparr>"

definition inner_bearer_request :: request where
  "inner_bearer_request =
     \<lparr>cookies = Map.empty, headers = [''authorization'' \<mapsto> ''tok-Bearer alice'']\<rparr>"

definition unknown_request :: request where
  "unknown_request = \<lparr>cookies = [''session_token'' \<mapsto> ''tok-nobody''], headers = Map.empty\<rparr>"

definition empty_request :: request where
  "empty_request = \<lparr>cookies = Map.empty, headers = Map.empty\<rparr>"

definition amount_only :: "real transaction_update" where
  "amount_only = \<lparr>tu_type = None, tu_amount = Some 75, tu_category = None,
                   tu_description = None, tu_date = None\<rparr>"

definition groceries :: "real transaction_create" where
  "groceries = \<lparr>tc_type = ''expense'', tc_amount = 12.5, tc_category = ''Food'',
                 tc_description = ''Groceries'', tc_date = 1709100000000000\<rparr>"

definition groceries_now :: "real transaction_create" where
  "groceries_now = \<lparr>tc_type = ''expense'', tc_amount = 12.5, tc_category = ''Food'',
                     tc_description = ''Groceries'', tc_date = 1709100000123456\<rparr>"

definition login_request :: request where
  "login_request = \<lparr>cookies = Map.empty, headers = [''x-session-id'' \<mapsto> ''sid-1'']\<rparr>"

definition carol_data :: "string \<rightharpoonup> string" where
  "carol_data = [''email'' \<mapsto> ''carol@example.com'', ''name'' \<mapsto> ''Carol'',
                 ''picture'' \<mapsto> ''https://example.com/carol.png'',
                 ''session_token'' \<mapsto> ''tok-carol'']"

definition alice_again_data :: "string \<rightharpoonup> string" where
  "alice_again_data = [''email'' \<mapsto> ''alice@example.com'', ''name'' \<mapsto> ''Alice Renamed'',
                       ''picture'' \<mapsto> ''https://example.com/new.png'',
                       ''session_token'' \<mapsto> ''tok-alice-2'']"

definition example_env :: login_env where
  "example_env = \<lparr>new_user_id = ''u-carol'', new_user_created_at = 1709164800000001,
                   expires_now = 1709164800000002, new_session_id = ''s-3'',
                   new_session_created_at = 1709164800000003\<rparr>"

definition carol :: user where
  "carol = \<lparr>u_id = ''u-carol'', u_email = ''carol@example.com'', u_name = ''Carol'',
            u_picture = ''https://example.com/carol.png'', u_created_at = 1709164800000001\<rparr>"

definition example_provider :: "(string \<rightharpoonup> string) \<Rightarrow> string \<Rightarrow> provider_reply" where
  "example_provider user_data session_id =
     (if session_id = ''sid-1'' then Reply 200 user_data else Reply 401 Map.empty)"

fun decimal :: "nat \<Rightarrow> string" where
  "decimal n = (if n < 10 then [digit (int n)] else decimal (n div 10) @ [digit (int (n mod 10))])"
declare decimal.simps [simp del]

definition numbered :: "nat \<Rightarrow> real transaction list" where
  "numbered n = map (\<lambda>i. coffee\<lparr>t_id := ''c-'' @ decimal i\<rparr>) [0..<n]"

definition many_db :: "real db" where
  "many_db = example_db\<lparr>transactions := numbered 1001\<rparr>"

definition january :: "real transaction" where
  "january = \<lparr>t_id = ''t-6'', t_user_id = ''u-alice'', t_type = ''expense'', t_amount = 5,
              t_category = ''Food'', t_description = ''Tea'', t_date = 1705000000000000,
              t_created_at = 1705000000000500\<rparr>"

definition transfer :: "real transaction" where
  "transfer = \<lparr>t_id = ''t-7'', t_user_id = ''u-alice'', t_type = ''transfer'', t_amount = 30,
               t_category = ''Savings'', t_description = ''To savings'',
               t_date = 1708000000000000, t_created_at = 1708000000000900\<rparr>"

definition capped_db :: "real db" where
  "capped_db = example_db\<lparr>transactions := numbered 1000 @ [january]\<rparr>"

definition transfer_db :: "real db" where
  "transfer_db = example_db\<lparr>transactions := [transfer]\<rparr>"

definition example_fromisoformat :: "string \<Rightarrow> datetime option" where
  "example_fromisoformat s =
     (if s = ''2024-02-01T00:00:00+00:00'' then Some 1706745600000000
      else if s = ''2024-02-20T00:00:00+00:00'' then Some 1708387200000000
      else None)"

definition cookie_request :: request where
  "cookie_request = \<lparr>cookies = [''session_token'' \<mapsto> ''tok-bob''],
                      headers = [''authorization'' \<mapsto> ''Bearer tok-alice'']\<rparr>"

definition example_env2 :: login_env where
  "example_env2 = \<lparr>new_user_id = ''u-carol-2'', new_user_created_at = 1709164800000101,
                    expires_now = 1709164800000102, new_session_id = ''s-4'',
                    new_session_created_at = 1709164800000103\<rparr>"

definition carol_session :: user_session where
  "carol_session = \<lparr>s_id = ''s-3'', s_user_id = ''u-carol'', s_session_token = ''tok-carol'',
                    s_expires_at = 1709769600000002, s_created_at = 1709164800000003\<rparr>"

definition carol_session2 :: user_session where
  "carol_session2 = \<lparr>s_id = ''s-4'', s_user_id = ''u-carol'', s_session_token = ''tok-carol'',
                     s_expires_at = 1709769600000102, s_created_at = 1709164800000103\<rparr>"

definition twice_db :: "real db" where
  "twice_db = example_db\<lparr>users := [alice, bob, carol],
                user_sessions := [alice_session, bob_session, carol_session, carol_session2]\<rparr>"

definition carol_request :: request where
  "carol_request = \<lparr>cookies = [''session_token'' \<mapsto> ''tok-carol''], headers = Map.empty\<rparr>"

section \<open>Facts about the collection operations and strings\<close>

lemma find_one_None: "find_one P ds = None \<longleftrightarrow> (\<forall>x\<in>set ds. \<not> P x)"
  by (auto simp: find_one_def find_None_iff)

lemma find_one_Some: "find_one P ds = Some x \<Longrightarrow> x \<in> set ds \<and> P x"
  by (auto simp: find_one_def find_Some_iff)

lemma delete_one_subset: "set (fst (delete_one P ds)) \<subseteq> set ds"
  by (induction ds) (auto split: prod.splits)

lemma py_replace_absent: "\<not> sublist old s \<Longrightarrow> py_replace s old new = s"
  by (induction s) (auto simp: sublist_Cons_right)

lemma prefix_into_butlast:
  assumes "prefix old (a @ old @ b)" and "a \<noteq> []"
  shows "prefix old (a @ butlast old)"
proof (cases "old = []")
  case True
  then show ?thesis by simp
next
  case False
  from assms(1) obtain zs where "a @ old @ b = old @ zs"
    by (auto simp: prefix_def)
  then have 1: "old = take (length old) (a @ old @ b)"
    by (metis append_eq_conv_conj)
  have 2: "a @ old @ b = (a @ butlast old) @ (last old # b)"
    using False by simp
  have 3: "length old \<le> length (a @ butlast old)"
    using assms(2) False by (cases a) auto
  have "take (length old) (a @ old @ b) = take (length old) (a @ butlast old)"
    unfolding 2 using 3 by (simp only: take_append diff_is_0_eq' take_0 append_Nil2)
  with 1 have "old = take (length old) (a @ butlast old)" by simp
  then show ?thesis by (metis take_is_prefix)
qed

lemma py_replace_first:
  "old \<noteq> [] \<Longrightarrow> \<not> sublist old (a @ butlast old)
   \<Longrightarrow> py_replace (a @ old @ b) old new = a @ new @ py_replace b old new"
proof (induction a)
  case Nil
  then obtain c cs where old: "old = c # cs" by (cases old) auto
  have "py_replace (old @ b) old new = new @ py_replace (drop (length old) (old @ b)) old new"
    unfolding old by (simp del: drop_append)
  then show ?case by simp
next
  case (Cons c a)
  have np: "\<not> prefix old (c # a @ old @ b)"
  proof
    assume "prefix old (c # a @ old @ b)"
    then have "prefix old ((c # a) @ butlast old)"
      using prefix_into_butlast[of old "c # a" b] by simp
    then show False using Cons.prems(2) by (meson prefix_imp_sublist)
  qed
  have "\<not> sublist old (a @ butlast old)"
    using Cons.prems(2) by (simp add: sublist_Cons_right)
  then have IH: "py_replace (a @ old @ b) old new = a @ new @ py_replace b old new"
    using Cons.IH Cons.prems(1) by simp
  have "py_replace (c # a @ old @ b) old new = c # py_replace (a @ old @ b) old new"
    using np by (subst py_replace.simps(2)) simp
  then show ?case using IH by simp
qed

lemma alice_request_token: "session_token_of alice_request = ''tok-alice''"
  by (simp add: session_token_of_def authorization_def alice_request_def)

lemma alice_authenticated: "get_current_user alice_request example_now example_db = Some alice"
  by (simp add: get_current_user_def alice_request_token find_one_def example_db_def
        alice_session_def bob_session_def alice_def bob_def example_now_def)

lemma delete_one_no_match: "\<forall>x\<in>set ds. \<not> P x \<Longrightarrow> delete_one P ds = (ds, 0)"
  by (induction ds) auto

lemma get_current_user_transactions:
  "get_current_user req now (d\<lparr>transactions := ts\<rparr>) = get_current_user req now d"
  by (simp add: get_current_user_def Let_def cong: if_cong option.case_cong)

lemma find_one_append_new:
  assumes "\<forall>x\<in>set ds. \<not> P x" and "P y"
  shows "find_one P (ds @ [y]) = Some y"
  using assms by (induction ds) (auto simp: find_one_def)

lemma update_one_find:
  assumes "find_one P ds = Some t" and "P (f t)"
  shows "find_one P (update_one P f ds) = Some (f t)"
  using assms by (induction ds) (auto simp: find_one_def split: if_splits)

lemma update_one_index:
  assumes "find_one P ds = Some t"
  shows "\<exists>i<length ds. ds ! i = t \<and> (\<forall>j<i. \<not> P (ds ! j)) \<and> update_one P f ds = ds[i := f t]"
  using assms
proof (induction ds)
  case Nil
  then show ?case by (simp add: find_one_def)
next
  case (Cons x xs)
  show ?case
  proof (cases "P x")
    case True
    with Cons.prems have "x = t" by (simp add: find_one_def)
    with True show ?thesis by (intro exI[of _ 0]) simp
  next
    case False
    with Cons.prems have "find_one P xs = Some t" by (simp add: find_one_def)
    from Cons.IH[OF this] obtain i where i: "i < length xs" "xs ! i = t"
      "\<forall>j<i. \<not> P (xs ! j)" "update_one P f xs = xs[i := f t]" by blast
    have "\<forall>j<Suc i. \<not> P ((x # xs) ! j)"
      using False i(3) by (auto simp: less_Suc_eq_0_disj)
    with i False show ?thesis by (intro exI[of _ "Suc i"]) simp
  qed
qed

lemma owned_by_set_fields: "owned_by tid uid (set_fields u t) = owned_by tid uid t"
  by (simp add: owned_by_def set_fields_def)

lemma set_fields_no_fields: "no_fields u \<Longrightarrow> set_fields u t = t"
  by (simp add: no_fields_def set_fields_def)

lemma delete_one_remove1:
  assumes "find_one P ds = Some x"
  shows "delete_one P ds = (remove1 x ds, 1)"
proof -
  have "P x" using assms by (simp add: find_one_Some)
  then show ?thesis
    using assms by (induction ds) (auto simp: find_one_def split: if_splits)
qed

lemma delete_one_other:
  "filter (\<lambda>x. \<not> P x) (fst (delete_one P ds)) = filter (\<lambda>x. \<not> P x) ds"
  by (induction ds) (auto split: prod.splits)

lemma fst_delete_one_Cons:
  "fst (delete_one P (x # xs)) = (if P x then xs else x # fst (delete_one P xs))"
  by (simp split: prod.splits)

lemma delete_one_twice:
  assumes "distinct (map k ds)"
  shows "fst (delete_one (\<lambda>x. k x = v) (fst (delete_one (\<lambda>x. k x = v) ds)))
           = fst (delete_one (\<lambda>x. k x = v) ds)"
  using assms
proof (induction ds)
  case Nil
  then show ?case by simp
next
  case (Cons x xs)
  show ?case
  proof (cases "k x = v")
    case True
    then have "k x \<notin> k ` set xs" using Cons.prems by simp
    then have "\<forall>y\<in>set xs. \<not> k y = v" using True by (metis imageI)
    then show ?thesis using True by (simp add: delete_one_no_match)
  next
    case False
    then show ?thesis using Cons by (simp add: fst_delete_one_Cons del: delete_one.simps)
  qed
qed

lemma alice_transactions:
  "user_transactions (u_id alice) example_db = [lunch, salary, coffee]"
  by (simp add: user_transactions_def example_db_def alice_def lunch_def salary_def rent_def
      coffee_def)

lemma many_db_authenticated: "get_current_user alice_request example_now many_db = Some alice"
  using alice_authenticated by (simp add: many_db_def get_current_user_transactions)

lemma length_numbered: "length (numbered n) = n"
  by (simp add: numbered_def)

lemma numbered_owner: "\<forall>t\<in>set (numbered n). t_user_id t = u_id alice"
  by (simp add: numbered_def coffee_def alice_def)

lemma many_db_transactions: "user_transactions (u_id alice) many_db = numbered 1001"
  using numbered_owner[of 1001] by (simp add: user_transactions_def many_db_def)

lemma bucket_Cons:
  "bucket f k (t # ts) = (if f (t_date t) = k then t # bucket f k ts else bucket f k ts)"
  by (simp add: bucket_def)

lemma bucket_empty: "k \<notin> f ` t_date ` set ts \<Longrightarrow> bucket f k ts = []"
  by (auto simp: bucket_def filter_empty_conv)

lemma month_totals_income: "e\<lparr>income := x\<rparr> = \<lparr>income = x, expenses = expenses e\<rparr>"
  by (cases e) simp

lemma month_totals_expenses: "e\<lparr>expenses := x\<rparr> = \<lparr>income = income e, expenses = x\<rparr>"
  by (cases e) simp

lemma monthly_loop_at:
  "monthly_loop f md ts k =
     (if k \<in> f ` t_date ` set ts
      then Some \<lparr>income = foldl (+) (case md k of None \<Rightarrow> 0 | Some e \<Rightarrow> income e)
                    (map t_amount (filter (\<lambda>t. t_type t = ''income'') (bucket f k ts))),
                 expenses = foldl (+) (case md k of None \<Rightarrow> 0 | Some e \<Rightarrow> expenses e)
                    (map t_amount (filter (\<lambda>t. t_type t \<noteq> ''income'') (bucket f k ts)))\<rparr>
      else md k)"
proof (induction ts arbitrary: md)
  case Nil
  then show ?case by simp
next
  case (Cons t ts)
  show ?case
  proof (cases "f (t_date t) = k")
    case True
    then show ?thesis
      by (cases "md k")
        (auto simp: Cons.IH Let_def bucket_Cons bucket_empty month_totals_income
          month_totals_expenses)
  next
    case False
    then show ?thesis
      by (auto simp: Cons.IH Let_def bucket_Cons)
  qed
qed

lemma strftime_Ym_examples:
  "strftime_Ym 1706000000000000 = ''2024-01''"
  "strftime_Ym 1709000000000000 = ''2024-02''"
  "strftime_Ym 1708000000000000 = ''2024-02''"
  "strftime_Ym 1705000000000000 = ''2024-01''"
  by code_simp+

lemma alice_windowed: "windowed (u_id alice) example_now example_db = [lunch, salary, coffee]"
  by (simp add: windowed_def in_window_def timedelta_days_def example_db_def example_now_def
      alice_def lunch_def salary_def rent_def coffee_def)

lemma alice_buckets:
  "bucket strftime_Ym ''2024-01'' [lunch, salary, coffee] = [lunch]"
  "bucket strftime_Ym ''2024-02'' [lunch, salary, coffee] = [salary, coffee]"
  "strftime_Ym ` t_date ` set [lunch, salary, coffee] = {''2024-01'', ''2024-02''}"
  by (auto simp: bucket_def lunch_def salary_def coffee_def strftime_Ym_examples)

lemma capped_db_authenticated: "get_current_user alice_request example_now capped_db = Some alice"
  using alice_authenticated by (simp add: capped_db_def get_current_user_transactions)

lemma transfer_db_authenticated: "get_current_user alice_request example_now transfer_db = Some alice"
  using alice_authenticated by (simp add: transfer_db_def get_current_user_transactions)

lemma numbered_in_window: "\<forall>t\<in>set (numbered n). in_window (u_id alice) example_now t"
  by (simp add: numbered_def in_window_def coffee_def alice_def example_now_def timedelta_days_def)

lemma numbered_date: "\<forall>t\<in>set (numbered n). t_date t = 1708000000000000"
  by (simp add: numbered_def coffee_def)

lemma january_in_window: "in_window (u_id alice) example_now january"
  by (simp add: in_window_def january_def alice_def example_now_def timedelta_days_def)

lemma capped_db_windowed: "windowed (u_id alice) example_now capped_db = numbered 1000"
  using numbered_in_window[of 1000] january_in_window
  by (simp add: windowed_def capped_db_def length_numbered)

lemma date_descending_sort: "date_descending (sort_date_desc ts)"
proof -
  have "sorted (map (\<lambda>t. - t_date t) (sort_key (\<lambda>t. - t_date t) ts))"
    by (rule sorted_sort_key)
  then show ?thesis
    by (simp add: date_descending_def sort_date_desc_def sorted_map)
qed

lemma mset_sort_date_desc: "mset (sort_date_desc ts) = mset ts"
  by (simp add: sort_date_desc_def)

lemma list_query_iff:
  "list_query uid category gte lte t \<longleftrightarrow>
     t_user_id t = uid
     \<and> (\<forall>c. category = Some c \<and> c \<noteq> [] \<longrightarrow> t_category t = c)
     \<and> (\<forall>lo. gte = Some lo \<longrightarrow> lo \<le> t_date t)
     \<and> (\<forall>hi. lte = Some hi \<longrightarrow> t_date t \<le> hi)"
  by (auto simp: list_query_def split: option.splits)

lemma date_bound_Inr:
  assumes "date_bound fromisoformat s = Inr b"
  shows "(b = None \<longleftrightarrow> \<not> truthy s)
       \<and> (\<forall>dt. b = Some dt \<longrightarrow>
            (\<exists>v. s = Some v \<and> v \<noteq> [] \<and> fromisoformat (py_replace v ''Z'' ''+00:00'') = Some dt))"
proof (cases s)
  case None
  then show ?thesis using assms by (auto simp: date_bound_def truthy_def)
next
  case (Some v)
  show ?thesis
  proof (cases "v = []")
    case True
    then show ?thesis using assms Some by (auto simp: date_bound_def truthy_def)
  next
    case False
    then show ?thesis
      using assms Some
      by (cases "fromisoformat (py_replace v ''Z'' ''+00:00'')")
         (auto simp: date_bound_def truthy_def)
  qed
qed

lemma example_bounds:
  "date_bound example_fromisoformat None = Inr None"
  "date_bound example_fromisoformat (Some ''2024-02-01T00:00:00Z'') = Inr (Some 1706745600000000)"
  "date_bound example_fromisoformat (Some ''2024-02-20T00:00:00Z'') = Inr (Some 1708387200000000)"
  by (simp_all add: date_bound_def example_fromisoformat_def)

lemma alice_sorted:
  "sort_date_desc [lunch, coffee] = [coffee, lunch]"
  "sort_date_desc [coffee] = [coffee]"
  "sort_date_desc [lunch, salary, coffee] = [salary, coffee, lunch]"
  by (simp_all add: sort_date_desc_def lunch_def coffee_def salary_def)

lemma list_food:
  "get_transactions example_fromisoformat alice_request example_now (Some ''Food'') None None
     example_db = Inr [coffee, lunch]"
proof -
  have "filter (list_query (u_id alice) (Some ''Food'') None None) (transactions example_db)
        = [lunch, coffee]"
    by (simp add: list_query_def example_db_def alice_def lunch_def salary_def rent_def
        coffee_def)
  then show ?thesis
    by (simp add: get_transactions_def alice_authenticated example_bounds to_list_def
        alice_sorted)
qed

lemma list_february:
  "get_transactions example_fromisoformat alice_request example_now None
     (Some ''2024-02-01T00:00:00Z'') (Some ''2024-02-20T00:00:00Z'') example_db = Inr [coffee]"
proof -
  have "filter (list_query (u_id alice) None (Some 1706745600000000) (Some 1708387200000000))
          (transactions example_db) = [coffee]"
    by (simp add: list_query_def example_db_def alice_def lunch_def salary_def rent_def
        coffee_def)
  then show ?thesis
    by (simp add: get_transactions_def alice_authenticated example_bounds to_list_def
        alice_sorted)
qed

lemma list_empty_category:
  "get_transactions example_fromisoformat alice_request example_now (Some []) None None
     example_db = Inr [salary, coffee, lunch]"
proof -
  have "filter (list_query (u_id alice) (Some []) None None) (transactions example_db)
        = [lunch, salary, coffee]"
    by (simp add: list_query_def example_db_def alice_def lunch_def salary_def rent_def
        coffee_def)
  then show ?thesis
    by (simp add: get_transactions_def alice_authenticated example_bounds to_list_def
        alice_sorted)
qed

lemma date_descending_prefix: "date_descending (rows @ rest) \<Longrightarrow> date_descending rows"
  by (simp add: date_descending_def sorted_wrt_append)

lemma session_token_of_cookie:
  "cookies req ''session_token'' = Some c \<Longrightarrow> c \<noteq> [] \<Longrightarrow> session_token_of req = c"
  by (simp add: session_token_of_def)

lemma session_token_of_header:
  "cookies req ''session_token'' = None \<or> cookies req ''session_token'' = Some []
   \<Longrightarrow> headers req ''authorization'' = Some h
   \<Longrightarrow> session_token_of req = py_replace h ''Bearer '' []"
  by (auto simp: session_token_of_def authorization_def)

lemma session_token_of_nothing:
  "cookies req ''session_token'' = None \<or> cookies req ''session_token'' = Some []
   \<Longrightarrow> headers req ''authorization'' = None \<Longrightarrow> session_token_of req = []"
  by (auto simp: session_token_of_def authorization_def)

lemma py_replace_bearer:
  assumes "\<not> sublist ''Bearer '' t"
  shows "py_replace (''Bearer '' @ t) ''Bearer '' [] = t"
proof -
  have "\<not> sublist ''Bearer '' ([] @ butlast ''Bearer '')" by (simp add: sublist_code)
  then have "py_replace ([] @ ''Bearer '' @ t) ''Bearer '' [] = [] @ [] @ py_replace t ''Bearer '' []"
    by (intro py_replace_first) simp_all
  then show ?thesis using assms by (simp add: py_replace_absent)
qed

lemma session_token_of_bearer:
  "cookies req ''session_token'' = None \<or> cookies req ''session_token'' = Some []
   \<Longrightarrow> headers req ''authorization'' = Some (''Bearer '' @ t)
   \<Longrightarrow> \<not> sublist ''Bearer '' t \<Longrightarrow> session_token_of req = t"
  using py_replace_bearer[of t] session_token_of_header[of req "''Bearer '' @ t"] by auto

lemma delete_one_count:
  "length (filter P (fst (delete_one P ds))) = length (filter P ds) - 1"
  by (induction ds) (auto simp: fst_delete_one_Cons simp del: delete_one.simps(2))

lemma delete_one_again:
  assumes "length (filter P ds) \<le> 1"
  shows "fst (delete_one P (fst (delete_one P ds))) = fst (delete_one P ds)"
proof -
  have "length (filter P (fst (delete_one P ds))) = 0"
    using assms by (simp add: delete_one_count)
  then have "\<forall>x\<in>set (fst (delete_one P ds)). \<not> P x"
    by (simp add: filter_empty_conv)
  then show ?thesis by (simp add: delete_one_no_match)
qed

lemma example_tokens:
  "session_token_of carol_request = ''tok-carol''"
  "session_token_of cookie_request = ''tok-bob''"
  by (simp_all add: session_token_of_def carol_request_def cookie_request_def)

lemma session_token_of_no_cookie:
  "cookies req ''session_token'' = None \<Longrightarrow>
   session_token_of req = py_replace (authorization req) ''Bearer '' []"
  by (simp add: session_token_of_def)

section \<open>Token extraction\<close>

text \<open>
  Claim C10. When the request has no \<open>session_token\<close> cookie, the token that
  \<open>get_current_user\<close> looks up and that \<open>logout\<close> deletes is the \<open>Authorization\<close>
  header after \<open>replace("Bearer ", "")\<close>. A header in which \<open>"Bearer "\<close> does not occur is
  therefore the token as it stands, and an occurrence of \<open>"Bearer "\<close> is removed wherever it
  is, not only at the front: for a header \<open>a + "Bearer " + b\<close> whose first occurrence is
  the one shown, the token is \<open>a\<close> followed by what the replacement leaves of \<open>b\<close>.
\<close>

theorem token_extraction:
  assumes "cookies req ''session_token'' = None"
  shows "session_token_of req = py_replace (authorization req) ''Bearer '' []
       \<and> get_current_user req now d =
           (let tok = py_replace (authorization req) ''Bearer '' [] in
            if tok = [] then None
            else (case find_one (\<lambda>s. s_session_token s = tok \<and> now < s_expires_at s)
                         (user_sessions d) of
                    None \<Rightarrow> None
                  | Some session \<Rightarrow> find_one (\<lambda>u. u_id u = s_user_id session) (users d)))
       \<and> snd (logout req d) =
           (let tok = py_replace (authorization req) ''Bearer '' [] in
            if tok \<noteq> []
            then d\<lparr>user_sessions := fst (delete_one (\<lambda>s. s_session_token s = tok) (user_sessions d))\<rparr>
            else d)
       \<and> (\<not> sublist ''Bearer '' (authorization req) \<longrightarrow> session_token_of req = authorization req)
       \<and> (\<forall>a b. authorization req = a @ ''Bearer '' @ b \<and> \<not> sublist ''Bearer '' (a @ ''Bearer'')
            \<longrightarrow> session_token_of req = a @ py_replace b ''Bearer '' [])"
proof -
  have tok: "session_token_of req = py_replace (authorization req) ''Bearer '' []"
    using assms by (rule session_token_of_no_cookie)
  have absent: "\<not> sublist ''Bearer '' (authorization req) \<longrightarrow> session_token_of req = authorization req"
    by (simp add: tok py_replace_absent)
  have anywhere: "\<forall>a b. authorization req = a @ ''Bearer '' @ b \<and> \<not> sublist ''Bearer '' (a @ ''Bearer'')
            \<longrightarrow> session_token_of req = a @ py_replace b ''Bearer '' []"
  proof (intro allI impI, elim conjE)
    fix a b
    assume h: "authorization req = a @ ''Bearer '' @ b" and n: "\<not> sublist ''Bearer '' (a @ ''Bearer'')"
    have "py_replace (a @ ''Bearer '' @ b) ''Bearer '' [] = a @ [] @ py_replace b ''Bearer '' []"
      by (rule py_replace_first) (use n in simp_all)
    then show "session_token_of req = a @ py_replace b ''Bearer '' []"
      by (simp add: tok h)
  qed
  have gcu: "get_current_user req now d =
           (let tok = py_replace (authorization req) ''Bearer '' [] in
            if tok = [] then None
            else (case find_one (\<lambda>s. s_session_token s = tok \<and> now < s_expires_at s)
                         (user_sessions d) of
                    None \<Rightarrow> None
                  | Some session \<Rightarrow> find_one (\<lambda>u. u_id u = s_user_id session) (users d)))"
    by (simp add: get_current_user_def tok)
  have lo: "snd (logout req d) =
           (let tok = py_replace (authorization req) ''Bearer '' [] in
            if tok \<noteq> []
            then d\<lparr>user_sessions := fst (delete_one (\<lambda>s. s_session_token s = tok) (user_sessions d))\<rparr>
            else d)"
    by (simp add: logout_def tok Let_def)
  show ?thesis using tok gcu lo absent anywhere by (intro conjI)
qed

theorem token_extraction_witness:
  "cookies raw_header_request ''session_token'' = None
   \<and> session_token_of raw_header_request = ''tok-alice''
   \<and> get_current_user raw_header_request example_now example_db = Some alice
   \<and> cookies inner_bearer_request ''session_token'' = None
   \<and> session_token_of inner_bearer_request = ''tok-alice''
   \<and> user_sessions (snd (logout inner_bearer_request example_db)) = [bob_session]"
proof -
  have c1: "cookies raw_header_request ''session_token'' = None"
    by (simp add: raw_header_request_def)
  have c2: "cookies inner_bearer_request ''session_token'' = None"
    by (simp add: inner_bearer_request_def)
  have a1: "authorization raw_header_request = ''tok-alice''"
    by (simp add: raw_header_request_def authorization_def)
  have a2: "authorization inner_bearer_request = ''tok-'' @ ''Bearer '' @ ''alice''"
    by (simp add: inner_bearer_request_def authorization_def)
  note t1 = token_extraction [OF c1, of example_now example_db]
  note t2 = token_extraction [OF c2, of example_now example_db]
  have n1: "\<not> sublist ''Bearer '' ''tok-alice''" by (simp add: sublist_code)
  have n2: "\<not> sublist ''Bearer '' (''tok-'' @ ''Bearer'')" by (simp add: sublist_code)
  have r: "py_replace ''alice'' ''Bearer '' [] = ''alice''" by simp
  have s1: "session_token_of raw_header_request = ''tok-alice''"
    using t1 n1 by (simp add: a1)
  have s2: "session_token_of inner_bearer_request = ''tok-alice''"
    using t2 a2 n2 r by auto
  have g: "get_current_user raw_header_request example_now example_db = Some alice"
    by (simp add: get_current_user_def s1 find_one_def example_db_def
        alice_session_def bob_session_def alice_def bob_def example_now_def)
  have l: "user_sessions (snd (logout inner_bearer_request example_db)) = [bob_session]"
    by (simp add: logout_def s2 example_db_def alice_session_def bob_session_def)
  show ?thesis using c1 c2 s1 s2 g l by (intro conjI)
qed

section \<open>Identity resolution\<close>

text \<open>The invariant holds in the empty store and every operation that writes keeps it.\<close>

lemma sessions_reference_users_iff:
  "sessions_reference_users d \<longleftrightarrow>
     (\<forall>s\<in>set (user_sessions d). \<exists>u\<in>set (users d). u_id u = s_user_id s)"
  by (simp add: sessions_reference_users_def list_all_iff list_ex_iff)

lemma create_session_users: "users (snd (create_session env user_data user d)) = users d"
  by (simp add: create_session_def Let_def split: sum.splits)

lemma create_session_sessions:
  "set (user_sessions (snd (create_session env user_data user d)))
     \<subseteq> set (user_sessions d) \<union> {s. s_user_id s = u_id user}"
  by (auto simp: create_session_def Let_def insert_one_def split: sum.splits)

lemma create_session_keeps:
  assumes "sessions_reference_users d" and "user \<in> set (users d)"
  shows "sessions_reference_users (snd (create_session env user_data user d))"
  unfolding sessions_reference_users_iff create_session_users
proof
  fix s
  assume "s \<in> set (user_sessions (snd (create_session env user_data user d)))"
  then have "s \<in> set (user_sessions d) \<or> s_user_id s = u_id user"
    using create_session_sessions[of env user_data user d] by auto
  then show "\<exists>u\<in>set (users d). u_id u = s_user_id s"
    using assms by (auto simp: sessions_reference_users_iff)
qed

lemma get_session_data_keeps:
  assumes "sessions_reference_users d"
  shows "sessions_reference_users (snd (get_session_data provider env req d))"
proof -
  have new: "sessions_reference_users (snd (create_session env user_data u (d\<lparr>users := insert_one u (users d)\<rparr>)))"
    for user_data u
    by (rule create_session_keeps)
       (use assms in \<open>auto simp: sessions_reference_users_iff insert_one_def\<close>)
  have old: "find_one P (users d) = Some u \<Longrightarrow>
             sessions_reference_users (snd (create_session env user_data u d))" for P u user_data
    by (rule create_session_keeps[OF assms]) (simp add: find_one_Some)
  show ?thesis
    using assms new old
    by (simp add: get_session_data_def Let_def split: option.splits provider_reply.splits sum.splits)
qed

lemma logout_keeps:
  assumes "sessions_reference_users d"
  shows "sessions_reference_users (snd (logout req d))"
  using assms delete_one_subset[of "\<lambda>s. s_session_token s = session_token_of req" "user_sessions d"]
  by (auto simp: logout_def Let_def sessions_reference_users_iff)

lemma create_transaction_keeps:
  "sessions_reference_users d \<Longrightarrow>
   sessions_reference_users (snd (create_transaction new_id created_now td req now d))"
  by (simp add: create_transaction_def sessions_reference_users_def Let_def split: option.splits)

lemma update_transaction_keeps:
  "sessions_reference_users d \<Longrightarrow>
   sessions_reference_users (snd (update_transaction tid td req now d))"
  by (simp add: update_transaction_def sessions_reference_users_def Let_def split: option.splits)

lemma delete_transaction_keeps:
  "sessions_reference_users d \<Longrightarrow>
   sessions_reference_users (snd (delete_transaction tid req now d))"
  by (simp add: delete_transaction_def sessions_reference_users_def split: option.splits prod.splits)

lemma empty_store_references:
  "sessions_reference_users \<lparr>users = [], user_sessions = [], transactions = []\<rparr>"
  by (simp add: sessions_reference_users_def)

lemma get_current_user_None:
  assumes "sessions_reference_users d"
  shows "get_current_user req now d = None \<longleftrightarrow>
           session_token_of req = []
           \<or> (\<forall>s\<in>set (user_sessions d). \<not> (s_session_token s = session_token_of req \<and> now < s_expires_at s))"
proof (cases "session_token_of req = []")
  case True
  then show ?thesis by (simp add: get_current_user_def)
next
  case False
  show ?thesis
  proof (cases "find_one (\<lambda>s. s_session_token s = session_token_of req \<and> now < s_expires_at s)
                  (user_sessions d)")
    case None
    then have "\<forall>s\<in>set (user_sessions d).
                 \<not> (s_session_token s = session_token_of req \<and> now < s_expires_at s)"
      by (simp add: find_one_None)
    then show ?thesis using False None by (simp add: get_current_user_def)
  next
    case (Some s)
    then have s: "s \<in> set (user_sessions d)" "s_session_token s = session_token_of req"
      "now < s_expires_at s"
      by (auto dest: find_one_Some)
    then have "\<exists>u\<in>set (users d). u_id u = s_user_id s"
      using assms by (simp add: sessions_reference_users_iff)
    then have "find_one (\<lambda>u. u_id u = s_user_id s) (users d) \<noteq> None"
      by (simp add: find_one_None)
    then show ?thesis using False Some s by (auto simp: get_current_user_def)
  qed
qed

lemma get_current_user_Some:
  assumes "get_current_user req now d = Some u"
  shows "session_token_of req \<noteq> [] \<and> u \<in> set (users d)
         \<and> (\<exists>s\<in>set (user_sessions d). s_session_token s = session_token_of req
                \<and> now < s_expires_at s \<and> s_user_id s = u_id u)"
proof -
  from assms have ne: "session_token_of req \<noteq> []"
    by (auto simp: get_current_user_def split: if_splits)
  with assms obtain s where
    s: "find_one (\<lambda>s. s_session_token s = session_token_of req \<and> now < s_expires_at s)
          (user_sessions d) = Some s"
    and u: "find_one (\<lambda>u. u_id u = s_user_id s) (users d) = Some u"
    by (auto simp: get_current_user_def split: option.splits)
  from find_one_Some[OF s] find_one_Some[OF u] ne show ?thesis by auto
qed

lemma live_session_resolves:
  assumes "sessions_reference_users d" and "session_token_of req \<noteq> []"
    and "s \<in> set (user_sessions d)" and "s_session_token s = session_token_of req"
    and "now < s_expires_at s"
  shows "\<exists>u\<in>set (users d). get_current_user req now d = Some u"
proof -
  have "get_current_user req now d \<noteq> None"
    using assms by (auto simp: get_current_user_None)
  then obtain u where "get_current_user req now d = Some u" by auto
  then show ?thesis using get_current_user_Some[of req now d u] by auto
qed

text \<open>
  Claim C2. The token of a request is its \<open>session_token\<close> cookie when that is present
  and not empty, and otherwise its \<open>Authorization\<close> header after \<open>replace("Bearer ", "")\<close>
  (for a header \<open>Bearer t\<close>, that is \<open>t\<close>); a request with neither has no token. In a
  store whose session rows all refer to a user row, \<open>get_current_user\<close> returns no user
  exactly when the request carries no token, or no session row has the token, or every
  row with the token has \<open>expires_at \<le> now\<close>. So a request whose cookie, or whose bearer
  header, names a session row with \<open>expires_at > now\<close> resolves to a stored user, and when
  a user is returned such a row exists and the user is the stored one that row names.
  The function only reads: it is a function of the store with no store in its result,
  and its result is a user or none, never an error; \<open>GET /auth/me\<close> turns "none" into
  the 401.
\<close>

theorem identity_resolution:
  assumes "sessions_reference_users d"
  shows "(get_current_user req now d = None \<longleftrightarrow>
            session_token_of req = []
            \<or> (\<forall>s\<in>set (user_sessions d). s_session_token s \<noteq> session_token_of req)
            \<or> (\<forall>s\<in>set (user_sessions d).
                  s_session_token s = session_token_of req \<longrightarrow> s_expires_at s \<le> now))
       \<and> (\<forall>u. get_current_user req now d = Some u \<longrightarrow>
              u \<in> set (users d)
              \<and> (\<exists>s\<in>set (user_sessions d). s_session_token s = session_token_of req
                     \<and> now < s_expires_at s \<and> s_user_id s = u_id u))
       \<and> (get_current_user_info req now d = Inl not_authenticated
            \<longleftrightarrow> get_current_user req now d = None)
       \<and> (\<forall>u. get_current_user_info req now d = Inr u \<longleftrightarrow> get_current_user req now d = Some u)
       \<and> (\<forall>c. cookies req ''session_token'' = Some c \<and> c \<noteq> [] \<longrightarrow> session_token_of req = c)
       \<and> (\<forall>h. (cookies req ''session_token'' = None \<or> cookies req ''session_token'' = Some [])
              \<and> headers req ''authorization'' = Some h
              \<longrightarrow> session_token_of req = py_replace h ''Bearer '' [])
       \<and> (\<forall>t. (cookies req ''session_token'' = None \<or> cookies req ''session_token'' = Some [])
              \<and> headers req ''authorization'' = Some (''Bearer '' @ t) \<and> \<not> sublist ''Bearer '' t
              \<longrightarrow> session_token_of req = t)
       \<and> ((cookies req ''session_token'' = None \<or> cookies req ''session_token'' = Some [])
              \<and> headers req ''authorization'' = None
              \<longrightarrow> session_token_of req = [] \<and> get_current_user req now d = None)
       \<and> (\<forall>c s. cookies req ''session_token'' = Some c \<and> c \<noteq> [] \<and> s \<in> set (user_sessions d)
              \<and> s_session_token s = c \<and> now < s_expires_at s
              \<longrightarrow> (\<exists>u\<in>set (users d). get_current_user req now d = Some u))
       \<and> (\<forall>c. cookies req ''session_token'' = Some c \<and> c \<noteq> []
              \<and> (\<forall>s\<in>set (user_sessions d). s_session_token s = c \<longrightarrow> s_expires_at s \<le> now)
              \<longrightarrow> get_current_user req now d = None)
       \<and> (\<forall>t s. (cookies req ''session_token'' = None \<or> cookies req ''session_token'' = Some [])
              \<and> headers req ''authorization'' = Some (''Bearer '' @ t) \<and> \<not> sublist ''Bearer '' t
              \<and> t \<noteq> [] \<and> s \<in> set (user_sessions d)
              \<and> s_session_token s = t \<and> now < s_expires_at s
              \<longrightarrow> (\<exists>u\<in>set (users d). get_current_user req now d = Some u))"
proof -
  have 1: "get_current_user req now d = None \<longleftrightarrow>
            session_token_of req = []
            \<or> (\<forall>s\<in>set (user_sessions d). s_session_token s \<noteq> session_token_of req)
            \<or> (\<forall>s\<in>set (user_sessions d).
                  s_session_token s = session_token_of req \<longrightarrow> s_expires_at s \<le> now)"
    unfolding get_current_user_None[OF assms] by (auto simp: not_less)
  have 2: "\<forall>u. get_current_user req now d = Some u \<longrightarrow>
              u \<in> set (users d)
              \<and> (\<exists>s\<in>set (user_sessions d). s_session_token s = session_token_of req
                     \<and> now < s_expires_at s \<and> s_user_id s = u_id u)"
    using get_current_user_Some[of req now d] by blast
  have 3: "get_current_user_info req now d = Inl not_authenticated
            \<longleftrightarrow> get_current_user req now d = None"
    by (simp add: get_current_user_info_def split: option.splits)
  have 4: "\<forall>u. get_current_user_info req now d = Inr u \<longleftrightarrow> get_current_user req now d = Some u"
    by (simp add: get_current_user_info_def split: option.splits)
  have 5: "\<forall>c. cookies req ''session_token'' = Some c \<and> c \<noteq> [] \<longrightarrow> session_token_of req = c"
    by (simp add: session_token_of_cookie)
  have 6: "\<forall>h. (cookies req ''session_token'' = None \<or> cookies req ''session_token'' = Some [])
              \<and> headers req ''authorization'' = Some h
              \<longrightarrow> session_token_of req = py_replace h ''Bearer '' []"
    using session_token_of_header[of req] by blast
  have 7: "\<forall>t. (cookies req ''session_token'' = None \<or> cookies req ''session_token'' = Some [])
              \<and> headers req ''authorization'' = Some (''Bearer '' @ t) \<and> \<not> sublist ''Bearer '' t
              \<longrightarrow> session_token_of req = t"
    using session_token_of_bearer[of req] by blast
  have 8: "(cookies req ''session_token'' = None \<or> cookies req ''session_token'' = Some [])
              \<and> headers req ''authorization'' = None
              \<longrightarrow> session_token_of req = [] \<and> get_current_user req now d = None"
    using session_token_of_nothing[of req] by (auto simp: get_current_user_def)
  have 9: "\<forall>c s. cookies req ''session_token'' = Some c \<and> c \<noteq> [] \<and> s \<in> set (user_sessions d)
              \<and> s_session_token s = c \<and> now < s_expires_at s
              \<longrightarrow> (\<exists>u\<in>set (users d). get_current_user req now d = Some u)"
  proof (intro allI impI, elim conjE)
    fix c s
    assume c: "cookies req ''session_token'' = Some c" "c \<noteq> []"
      and s: "s \<in> set (user_sessions d)" "s_session_token s = c" "now < s_expires_at s"
    have "session_token_of req = c" using c by (rule session_token_of_cookie)
    then show "\<exists>u\<in>set (users d). get_current_user req now d = Some u"
      using live_session_resolves[OF assms _ s(1) _ s(3)] c(2) s(2) by simp
  qed
  have 10: "\<forall>c. cookies req ''session_token'' = Some c \<and> c \<noteq> []
              \<and> (\<forall>s\<in>set (user_sessions d). s_session_token s = c \<longrightarrow> s_expires_at s \<le> now)
              \<longrightarrow> get_current_user req now d = None"
  proof (intro allI impI, elim conjE)
    fix c
    assume c: "cookies req ''session_token'' = Some c" "c \<noteq> []"
      and e: "\<forall>s\<in>set (user_sessions d). s_session_token s = c \<longrightarrow> s_expires_at s \<le> now"
    have "session_token_of req = c" using c by (rule session_token_of_cookie)
    then show "get_current_user req now d = None" using 1 e by simp
  qed
  have 11: "\<forall>t s. (cookies req ''session_token'' = None \<or> cookies req ''session_token'' = Some [])
              \<and> headers req ''authorization'' = Some (''Bearer '' @ t) \<and> \<not> sublist ''Bearer '' t
              \<and> t \<noteq> [] \<and> s \<in> set (user_sessions d)
              \<and> s_session_token s = t \<and> now < s_expires_at s
              \<longrightarrow> (\<exists>u\<in>set (users d). get_current_user req now d = Some u)"
  proof (intro allI impI, elim conjE)
    fix t s
    assume n: "cookies req ''session_token'' = None \<or> cookies req ''session_token'' = Some []"
      and h: "headers req ''authorization'' = Some (''Bearer '' @ t)" "\<not> sublist ''Bearer '' t"
      and t: "t \<noteq> []"
      and s: "s \<in> set (user_sessions d)" "s_session_token s = t" "now < s_expires_at s"
    have "session_token_of req = t" using n h by (rule session_token_of_bearer)
    then show "\<exists>u\<in>set (users d). get_current_user req now d = Some u"
      using live_session_resolves[OF assms _ s(1) _ s(3)] t s(2) by simp
  qed
  show ?thesis using 1 2 3 4 5 6 7 8 9 10 11 by (intro conjI)
qed

lemma example_db_references: "sessions_reference_users example_db"
  by (simp add: sessions_reference_users_def example_db_def alice_def bob_def
      alice_session_def bob_session_def)

lemma bob_cookie_authenticated:
  "get_current_user cookie_request example_now example_db = Some bob"
  by (simp add: get_current_user_def session_token_of_def cookie_request_def find_one_def
      example_db_def alice_session_def bob_session_def alice_def bob_def example_now_def)

theorem identity_resolution_witness:
  "sessions_reference_users example_db
   \<and> get_current_user alice_request (s_expires_at alice_session) example_db = None
   \<and> get_current_user unknown_request example_now example_db = None
   \<and> get_current_user empty_request example_now example_db = None
   \<and> get_current_user_info alice_request example_now example_db = Inr alice
   \<and> cookies cookie_request ''session_token'' = Some ''tok-bob''
   \<and> session_token_of cookie_request = ''tok-bob''
   \<and> bob_session \<in> set (user_sessions example_db)
   \<and> example_now < s_expires_at bob_session
   \<and> get_current_user cookie_request example_now example_db = Some bob
   \<and> get_current_user cookie_request (s_expires_at bob_session) example_db = None
   \<and> headers alice_request ''authorization'' = Some (''Bearer '' @ ''tok-alice'')
   \<and> session_token_of alice_request = ''tok-alice''
   \<and> get_current_user alice_request example_now example_db = Some alice"
proof -
  note inv = example_db_references
  have expired: "get_current_user alice_request (s_expires_at alice_session) example_db = None"
    using identity_resolution [OF inv, of alice_request "s_expires_at alice_session"]
    by (simp add: alice_request_token example_db_def alice_session_def bob_session_def)
  have unknown: "get_current_user unknown_request example_now example_db = None"
    using identity_resolution [OF inv, of unknown_request example_now]
    by (simp add: session_token_of_def authorization_def unknown_request_def example_db_def
        alice_session_def bob_session_def)
  have absent: "get_current_user empty_request example_now example_db = None"
    using identity_resolution [OF inv, of empty_request example_now]
    by (simp add: empty_request_def)
  have me: "get_current_user_info alice_request example_now example_db = Inr alice"
    using identity_resolution [OF inv, of alice_request example_now] alice_authenticated
    by simp
  have ck: "cookies cookie_request ''session_token'' = Some ''tok-bob''"
    by (simp add: cookie_request_def)
  have tok: "session_token_of cookie_request = ''tok-bob''"
    using identity_resolution [OF inv, of cookie_request example_now] ck by simp
  have row: "bob_session \<in> set (user_sessions example_db)"
    "s_session_token bob_session = ''tok-bob''" "example_now < s_expires_at bob_session"
    by (simp_all add: example_db_def bob_session_def example_now_def)
  have "\<exists>u\<in>set (users example_db). get_current_user cookie_request example_now example_db = Some u"
    using identity_resolution [OF inv, of cookie_request example_now] ck row by blast
  then have some: "get_current_user cookie_request example_now example_db = Some bob"
    by (simp add: bob_cookie_authenticated)
  have late: "get_current_user cookie_request (s_expires_at bob_session) example_db = None"
    using identity_resolution [OF inv, of cookie_request "s_expires_at bob_session"] ck
    by (simp add: example_db_def alice_session_def bob_session_def)
  have hd: "headers alice_request ''authorization'' = Some (''Bearer '' @ ''tok-alice'')"
    "cookies alice_request ''session_token'' = None"
    by (simp_all add: alice_request_def)
  have nb: "\<not> sublist ''Bearer '' ''tok-alice''" by (simp add: sublist_code)
  have tok2: "session_token_of alice_request = ''tok-alice''"
    using identity_resolution [OF inv, of alice_request example_now] hd nb by blast
  show ?thesis
    using inv expired unknown absent me ck tok row(1,3) some late hd(1) tok2 alice_authenticated
    by (intro conjI)
qed

section \<open>Cross-user isolation\<close>

lemma not_owned_find:
  assumes "\<forall>t\<in>set ts. \<not> owned_by tid uid t"
  shows "find_one (owned_by tid uid) ts = None"
  using assms by (simp add: find_one_None)

lemma get_transaction_not_owned:
  assumes "get_current_user req now d = Some a"
    and "\<forall>t\<in>set (transactions d). \<not> owned_by tid (u_id a) t"
  shows "get_transaction tid req now d = Inl transaction_not_found"
  using assms by (simp add: get_transaction_def not_owned_find)

lemma update_transaction_not_owned:
  assumes "get_current_user req now d = Some a"
    and "\<forall>t\<in>set (transactions d). \<not> owned_by tid (u_id a) t"
  shows "update_transaction tid upd req now d = (Inl transaction_not_found, d)"
  using assms by (simp add: update_transaction_def not_owned_find)

lemma delete_transaction_not_owned:
  assumes "get_current_user req now d = Some a"
    and "\<forall>t\<in>set (transactions d). \<not> owned_by tid (u_id a) t"
  shows "delete_transaction tid req now d = (Inl transaction_not_found, d)"
  using assms by (simp add: delete_transaction_def delete_one_no_match)

text \<open>
  Claim C1. Let the request resolve to user \<open>a\<close>, let \<open>tb\<close> be a stored transaction of
  another user, and let \<open>a\<close> own no transaction with \<open>tb\<close>'s id (ids are drawn by
  \<open>uuid4\<close>; this holds whenever ids are unique in the store). Then reading, updating and
  deleting under \<open>tb\<close>'s id all answer 404 "Transaction not found" and return the store
  as it was, so \<open>tb\<close> is untouched; and the answers are the ones the same calls give on
  the store from which every transaction with that id has been removed (the same users
  and sessions, and the transactions whose id is another one).
\<close>

theorem cross_user_isolation:
  assumes "get_current_user req now d = Some a"
    and "tb \<in> set (transactions d)"
    and "t_user_id tb \<noteq> u_id a"
    and "\<forall>t\<in>set (transactions d). t_id t = t_id tb \<longrightarrow> t_user_id t \<noteq> u_id a"
  shows "get_transaction (t_id tb) req now d = Inl transaction_not_found
       \<and> update_transaction (t_id tb) upd req now d = (Inl transaction_not_found, d)
       \<and> delete_transaction (t_id tb) req now d = (Inl transaction_not_found, d)
       \<and> get_transaction (t_id tb) req now (without_id (t_id tb) d)
           = get_transaction (t_id tb) req now d
       \<and> fst (update_transaction (t_id tb) upd req now (without_id (t_id tb) d))
           = fst (update_transaction (t_id tb) upd req now d)
       \<and> fst (delete_transaction (t_id tb) req now (without_id (t_id tb) d))
           = fst (delete_transaction (t_id tb) req now d)
       \<and> snd (update_transaction (t_id tb) upd req now (without_id (t_id tb) d))
           = without_id (t_id tb) d
       \<and> snd (delete_transaction (t_id tb) req now (without_id (t_id tb) d))
           = without_id (t_id tb) d
       \<and> users (without_id (t_id tb) d) = users d
       \<and> user_sessions (without_id (t_id tb) d) = user_sessions d
       \<and> transactions (without_id (t_id tb) d)
           = filter (\<lambda>t. t_id t \<noteq> t_id tb) (transactions d)"
proof -
  let ?d0 = "without_id (t_id tb) d"
  have here: "\<forall>t\<in>set (transactions d). \<not> owned_by (t_id tb) (u_id a) t"
    using assms(4) by (auto simp: owned_by_def)
  have auth0: "get_current_user req now ?d0 = Some a"
    using assms(1) by (simp add: without_id_def get_current_user_transactions)
  have gone: "\<forall>t\<in>set (transactions ?d0). \<not> owned_by (t_id tb) (u_id a) t"
    by (simp add: without_id_def owned_by_def)
  note g = get_transaction_not_owned [OF assms(1) here]
  note u = update_transaction_not_owned [OF assms(1) here, of upd]
  note x = delete_transaction_not_owned [OF assms(1) here]
  note g0 = get_transaction_not_owned [OF auth0 gone]
  note u0 = update_transaction_not_owned [OF auth0 gone, of upd]
  note x0 = delete_transaction_not_owned [OF auth0 gone]
  have w: "users ?d0 = users d \<and> user_sessions ?d0 = user_sessions d
           \<and> transactions ?d0 = filter (\<lambda>t. t_id t \<noteq> t_id tb) (transactions d)"
    by (simp add: without_id_def)
  show ?thesis
    unfolding g u x g0 u0 x0 using w by simp
qed

theorem cross_user_isolation_witness:
  "get_current_user alice_request example_now example_db = Some alice
   \<and> rent \<in> set (transactions example_db)
   \<and> t_user_id rent \<noteq> u_id alice
   \<and> get_transaction ''t-4'' alice_request example_now example_db = Inl transaction_not_found
   \<and> update_transaction ''t-4'' amount_only alice_request example_now example_db
       = (Inl transaction_not_found, example_db)
   \<and> delete_transaction ''t-4'' alice_request example_now example_db
       = (Inl transaction_not_found, example_db)
   \<and> get_transaction ''t-4'' alice_request example_now (without_id ''t-4'' example_db)
       = Inl transaction_not_found"
proof -
  have 1: "rent \<in> set (transactions example_db)" by (simp add: example_db_def)
  have 2: "t_user_id rent \<noteq> u_id alice" by (simp add: rent_def alice_def)
  have 3: "\<forall>t\<in>set (transactions example_db). t_id t = t_id rent \<longrightarrow> t_user_id t \<noteq> u_id alice"
    by (simp add: example_db_def rent_def lunch_def salary_def coffee_def alice_def)
  have 4: "t_id rent = ''t-4''" by (simp add: rent_def)
  show ?thesis
    using cross_user_isolation [OF alice_authenticated 1 2 3, of amount_only]
      alice_authenticated 1 2
    unfolding 4 by simp
qed

section \<open>Create, then read\<close>

text \<open>
  Claim C6, amended. Let a request resolve to a user, let the id drawn for the new
  transaction be carried by no stored transaction (\<open>uuid4\<close>), and let the request that
  reads resolve to the same user. Then \<open>create_transaction\<close> answers with a transaction
  whose type, amount, category, description and date are the payload's, and
  \<open>get_transaction\<close> under the returned id gives a record with the same id and owner whose
  type, amount, category and description are the payload's and whose date is the
  payload's date cut down to the whole millisecond. So the date read back is the
  payload's when the payload's date has no microseconds below the millisecond, and
  \<open>created_at\<close> is the clock value cut down in the same way.
\<close>

theorem create_then_read:
  assumes "get_current_user req now d = Some user"
    and "get_current_user req' now' d = Some user"
    and "new_id \<notin> t_id ` set (transactions d)"
  shows "\<exists>t r d'. create_transaction new_id created_now payload req now d = (Inr t, d')
           \<and> get_transaction (t_id t) req' now' d' = Inr r
           \<and> t_type t = tc_type payload \<and> t_amount t = tc_amount payload
           \<and> t_category t = tc_category payload \<and> t_description t = tc_description payload
           \<and> t_date t = tc_date payload
           \<and> t_id t = new_id \<and> t_created_at t = created_now \<and> t_user_id t = u_id user
           \<and> t_type r = tc_type payload \<and> t_amount r = tc_amount payload
           \<and> t_category r = tc_category payload \<and> t_description r = tc_description payload
           \<and> t_date r = tc_date payload - tc_date payload mod 1000
           \<and> (tc_date payload mod 1000 = 0 \<longrightarrow> t_date r = tc_date payload)
           \<and> t_id r = new_id \<and> t_user_id r = u_id user
           \<and> t_created_at r = created_now - created_now mod 1000
           \<and> users d' = users d \<and> user_sessions d' = user_sessions d
           \<and> transactions d' = transactions d @ [r]"
proof -
  define t where "t = \<lparr>t_id = new_id, t_user_id = u_id user, t_type = tc_type payload,
      t_amount = tc_amount payload, t_category = tc_category payload,
      t_description = tc_description payload, t_date = tc_date payload,
      t_created_at = created_now\<rparr>"
  define r where "r = bson_transaction t"
  define d' where "d' = d\<lparr>transactions := insert_one r (transactions d)\<rparr>"
  have c: "create_transaction new_id created_now payload req now d = (Inr t, d')"
    using assms(1) by (simp add: create_transaction_def t_def r_def d'_def Let_def)
  have auth': "get_current_user req' now' d' = Some user"
    using assms(2) by (simp add: d'_def get_current_user_transactions)
  have "\<forall>x\<in>set (transactions d). \<not> owned_by new_id (u_id user) x"
    using assms(3) by (auto simp: owned_by_def)
  moreover have "owned_by new_id (u_id user) r"
    by (simp add: owned_by_def r_def bson_transaction_def t_def)
  ultimately have "find_one (owned_by new_id (u_id user)) (transactions d') = Some r"
    by (simp add: d'_def insert_one_def find_one_append_new)
  then have g: "get_transaction (t_id t) req' now' d' = Inr r"
    using auth' by (simp add: get_transaction_def t_def)
  have f: "t_type t = tc_type payload \<and> t_amount t = tc_amount payload
           \<and> t_category t = tc_category payload \<and> t_description t = tc_description payload
           \<and> t_date t = tc_date payload
           \<and> t_id t = new_id \<and> t_created_at t = created_now \<and> t_user_id t = u_id user"
    by (simp add: t_def)
  have b: "t_type r = tc_type payload \<and> t_amount r = tc_amount payload
           \<and> t_category r = tc_category payload \<and> t_description r = tc_description payload
           \<and> t_date r = tc_date payload - tc_date payload mod 1000
           \<and> (tc_date payload mod 1000 = 0 \<longrightarrow> t_date r = tc_date payload)
           \<and> t_id r = new_id \<and> t_user_id r = u_id user
           \<and> t_created_at r = created_now - created_now mod 1000"
    by (simp add: r_def bson_transaction_def bson_datetime_def t_def)
  have s: "users d' = users d \<and> user_sessions d' = user_sessions d
           \<and> transactions d' = transactions d @ [r]"
    by (simp add: d'_def insert_one_def)
  show ?thesis using c g f b s by blast
qed

lemma groceries_fresh: "''t-5'' \<notin> t_id ` set (transactions example_db)"
  by (simp add: example_db_def rent_def lunch_def salary_def coffee_def)

theorem create_then_read_witness:
  "get_current_user alice_request example_now example_db = Some alice
   \<and> ''t-5'' \<notin> t_id ` set (transactions example_db)
   \<and> tc_date groceries mod 1000 = 0
   \<and> get_transaction ''t-5'' alice_request example_now
        (snd (create_transaction ''t-5'' example_now groceries alice_request example_now example_db))
       = Inr \<lparr>t_id = ''t-5'', t_user_id = ''u-alice'', t_type = ''expense'', t_amount = 12.5,
              t_category = ''Food'', t_description = ''Groceries'', t_date = 1709100000000000,
              t_created_at = 1709164800000000\<rparr>"
proof -
  have whole: "tc_date groceries mod 1000 = 0" by (simp add: groceries_def)
  from create_then_read [OF alice_authenticated alice_authenticated groceries_fresh,
      of example_now groceries]
  obtain t r d' where c: "create_transaction ''t-5'' example_now groceries alice_request
        example_now example_db = (Inr t, d')"
    and g: "get_transaction (t_id t) alice_request example_now d' = Inr r"
    and i: "t_id t = ''t-5''"
    and f: "t_type r = tc_type groceries" "t_amount r = tc_amount groceries"
      "t_category r = tc_category groceries" "t_description r = tc_description groceries"
      "tc_date groceries mod 1000 = 0 \<longrightarrow> t_date r = tc_date groceries"
      "t_id r = ''t-5''" "t_user_id r = u_id alice"
      "t_created_at r = example_now - example_now mod 1000"
    by (elim exE conjE)
  have "r = \<lparr>t_id = ''t-5'', t_user_id = ''u-alice'', t_type = ''expense'', t_amount = 12.5,
              t_category = ''Food'', t_description = ''Groceries'', t_date = 1709100000000000,
              t_created_at = 1709164800000000\<rparr>"
    using f whole by (cases r) (simp add: groceries_def alice_def example_now_def)
  then show ?thesis using alice_authenticated groceries_fresh whole c g i by simp
qed

text \<open>
  Against claim C6 as it is written: a payload whose date has microseconds below the
  millisecond (such as the \<open>datetime.now(timezone.utc).isoformat()\<close> that
  \<open>backend_test.py\<close> sends) is read back with a date 456 microseconds earlier than the
  payload's.
\<close>

theorem create_then_read_counterexample:
  "tc_date groceries_now = 1709100000123456
   \<and> get_transaction ''t-5'' alice_request example_now
        (snd (create_transaction ''t-5'' example_now groceries_now alice_request example_now
                example_db))
       = Inr \<lparr>t_id = ''t-5'', t_user_id = ''u-alice'', t_type = ''expense'', t_amount = 12.5,
              t_category = ''Food'', t_description = ''Groceries'', t_date = 1709100000123000,
              t_created_at = 1709164800000000\<rparr>"
proof -
  let ?r = "\<lparr>t_id = ''t-5'', t_user_id = ''u-alice'', t_type = ''expense'', t_amount = 12.5,
              t_category = ''Food'', t_description = ''Groceries'', t_date = 1709100000123000,
              t_created_at = 1709164800000000\<rparr> :: real transaction"
  have a: "get_current_user alice_request example_now
             (example_db\<lparr>transactions := ts\<rparr>) = Some alice" for ts :: "real transaction list"
    using alice_authenticated by (simp add: get_current_user_transactions)
  have t: "transactions example_db = [lunch, salary, rent, coffee]"
    by (simp add: example_db_def)
  have e: "bson_datetime example_now = 1709164800000000" "u_id alice = ''u-alice''"
    "bson_datetime 1709100000123456 = 1709100000123000"
    by (simp_all add: bson_datetime_def example_now_def alice_def)
  have c: "snd (create_transaction ''t-5'' example_now groceries_now alice_request example_now
                  example_db)
           = example_db\<lparr>transactions := [lunch, salary, rent, coffee, ?r]\<rparr>"
    by (simp add: create_transaction_def alice_authenticated Let_def insert_one_def t
        bson_transaction_def groceries_now_def e)
  have g: "get_transaction ''t-5'' alice_request example_now
             (example_db\<lparr>transactions := [lunch, salary, rent, coffee, ?r]\<rparr>) = Inr ?r"
    by (simp add: get_transaction_def a find_one_def e owned_by_def lunch_def salary_def
        rent_def coffee_def)
  have "tc_date groceries_now = 1709100000123456" by (simp add: groceries_now_def)
  then show ?thesis unfolding c g by simp
qed

section \<open>Update as a partial merge\<close>

text \<open>
  Claim C7. Let the request resolve to a user and let \<open>t\<close> be the transaction the lookup
  under the given id and the caller's user id finds. Then \<open>update_transaction\<close> returns a
  record \<open>t'\<close> in which each of type, amount, category, description and date is the
  payload's value where the payload has one, and \<open>t\<close>'s value where the payload has
  \<open>None\<close>; id, owner and \<open>created_at\<close> are \<open>t\<close>'s. In the store exactly the row of \<open>t\<close> is
  replaced by \<open>t'\<close>, and \<open>t'\<close> is what a read under the id returns afterwards. A payload
  with only an amount thus leaves category, description, type and date as they were.
\<close>

theorem update_partial_merge:
  assumes "get_current_user req now d = Some user"
    and "find_one (owned_by tid (u_id user)) (transactions d) = Some t"
  shows "\<exists>t' d'. update_transaction tid upd req now d = (Inr t', d')
           \<and> t_type t' = (case tu_type upd of None \<Rightarrow> t_type t | Some v \<Rightarrow> v)
           \<and> t_amount t' = (case tu_amount upd of None \<Rightarrow> t_amount t | Some v \<Rightarrow> v)
           \<and> t_category t' = (case tu_category upd of None \<Rightarrow> t_category t | Some v \<Rightarrow> v)
           \<and> t_description t' = (case tu_description upd of None \<Rightarrow> t_description t | Some v \<Rightarrow> v)
           \<and> t_date t' = (case tu_date upd of None \<Rightarrow> t_date t | Some v \<Rightarrow> v)
           \<and> t_id t' = t_id t \<and> t_user_id t' = t_user_id t \<and> t_created_at t' = t_created_at t
           \<and> users d' = users d \<and> user_sessions d' = user_sessions d
           \<and> (\<exists>i<length (transactions d). transactions d ! i = t
                  \<and> transactions d' = (transactions d)[i := t'])
           \<and> get_transaction tid req now d' = Inr t'"
proof -
  let ?P = "owned_by tid (u_id user)"
  define t' where "t' = set_fields upd t"
  define d' where "d' = (if \<not> no_fields upd
     then d\<lparr>transactions := update_one ?P (set_fields upd) (transactions d)\<rparr> else d)"
  have Pt: "?P t" using assms(2) by (simp add: find_one_Some)
  then have Pt': "?P t'" by (simp add: t'_def owned_by_set_fields)
  have found: "find_one ?P (transactions d') = Some t'"
  proof (cases "no_fields upd")
    case True
    then show ?thesis using assms(2) by (simp add: d'_def t'_def set_fields_no_fields)
  next
    case False
    then show ?thesis
      using update_one_find[OF assms(2), of "set_fields upd"] Pt'
      by (simp add: d'_def t'_def)
  qed
  have u: "update_transaction tid upd req now d = (Inr t', d')"
    using assms found by (simp add: update_transaction_def Let_def d'_def)
  have fields: "t_type t' = (case tu_type upd of None \<Rightarrow> t_type t | Some v \<Rightarrow> v)
           \<and> t_amount t' = (case tu_amount upd of None \<Rightarrow> t_amount t | Some v \<Rightarrow> v)
           \<and> t_category t' = (case tu_category upd of None \<Rightarrow> t_category t | Some v \<Rightarrow> v)
           \<and> t_description t' = (case tu_description upd of None \<Rightarrow> t_description t | Some v \<Rightarrow> v)
           \<and> t_date t' = (case tu_date upd of None \<Rightarrow> t_date t | Some v \<Rightarrow> v)
           \<and> t_id t' = t_id t \<and> t_user_id t' = t_user_id t \<and> t_created_at t' = t_created_at t"
    by (simp add: t'_def set_fields_def)
  have rest: "users d' = users d \<and> user_sessions d' = user_sessions d"
    by (simp add: d'_def)
  obtain i where i: "i < length (transactions d)" "transactions d ! i = t"
    "update_one ?P (set_fields upd) (transactions d) = (transactions d)[i := t']"
    using update_one_index[OF assms(2), of "set_fields upd"] unfolding t'_def by blast
  have "transactions d' = (transactions d)[i := t']"
  proof (cases "no_fields upd")
    case True
    then have "t' = t" by (simp add: t'_def set_fields_no_fields)
    moreover have "(transactions d)[i := t] = transactions d"
      using i(2) list_update_id[of "transactions d" i] by simp
    ultimately show ?thesis using True by (simp add: d'_def)
  next
    case False
    then show ?thesis using i(3) by (simp add: d'_def)
  qed
  with i have idx: "\<exists>i<length (transactions d). transactions d ! i = t
                  \<and> transactions d' = (transactions d)[i := t']" by blast
  have auth': "get_current_user req now d' = Some user"
    using assms(1) by (simp add: d'_def get_current_user_transactions)
  have g: "get_transaction tid req now d' = Inr t'"
    using auth' found by (simp add: get_transaction_def)
  show ?thesis using u fields rest idx g by blast
qed

theorem update_partial_merge_witness:
  "get_current_user alice_request example_now example_db = Some alice
   \<and> find_one (owned_by ''t-1'' (u_id alice)) (transactions example_db) = Some lunch
   \<and> update_transaction ''t-1'' amount_only alice_request example_now example_db
       = (Inr (lunch\<lparr>t_amount := 75\<rparr>),
          example_db\<lparr>transactions := [lunch\<lparr>t_amount := 75\<rparr>, salary, rent, coffee]\<rparr>)"
proof -
  have f: "find_one (owned_by ''t-1'' (u_id alice)) (transactions example_db) = Some lunch"
    by (simp add: find_one_def owned_by_def example_db_def lunch_def alice_def)
  from update_partial_merge [OF alice_authenticated f, of amount_only]
  obtain t' d' where u: "update_transaction ''t-1'' amount_only alice_request example_now example_db = (Inr t', d')"
    and fields: "t_type t' = t_type lunch" "t_amount t' = 75" "t_category t' = t_category lunch"
      "t_description t' = t_description lunch" "t_date t' = t_date lunch" "t_id t' = t_id lunch"
      "t_user_id t' = t_user_id lunch" "t_created_at t' = t_created_at lunch"
    and rest: "users d' = users example_db" "user_sessions d' = user_sessions example_db"
    and idx: "\<exists>i<length (transactions example_db). transactions example_db ! i = lunch
                  \<and> transactions d' = (transactions example_db)[i := t']"
    by (auto simp: amount_only_def)
  have t': "t' = lunch\<lparr>t_amount := 75\<rparr>"
    using fields by (cases t') (simp add: lunch_def)
  from idx obtain i where i: "i < length (transactions example_db)"
    "transactions example_db ! i = lunch"
    "transactions d' = (transactions example_db)[i := t']"
    by blast
  have "i = 0"
    using i(1,2)
    by (auto simp: example_db_def lunch_def salary_def rent_def coffee_def nth_Cons'
        less_Suc_eq split: if_splits)
  then have "transactions d' = [lunch\<lparr>t_amount := 75\<rparr>, salary, rent, coffee]"
    using i(3) t' by (simp add: example_db_def)
  then have "d' = example_db\<lparr>transactions := [lunch\<lparr>t_amount := 75\<rparr>, salary, rent, coffee]\<rparr>"
    using rest by (cases d') (simp add: example_db_def)
  then show ?thesis using alice_authenticated f u t' by simp
qed

section \<open>Logout\<close>

text \<open>
  Claim C8, amended. \<open>logout\<close> answers with the success message on every request and
  every store, hence also when the token is absent, unknown, or when the same logout
  has already run. Users and transactions are not touched. The token is the
  \<open>session_token\<close> cookie when that is present and not empty, otherwise the
  \<open>Authorization\<close> header after \<open>replace("Bearer ", "")\<close>. When the request carries a token
  and a session row has it, the first such row, and only that row, is removed, so the
  number of rows with the token goes down by one; when the request has no token or no
  row has it, the store is returned as it was; rows with another token are never
  affected. A second logout of the same request leaves the store of the first when at
  most one session row carried the token (in particular where tokens are unique among
  the rows); nothing keeps tokens unique.
\<close>

theorem logout_always_succeeds:
  "fst (logout req d) = Inr logged_out
   \<and> fst (logout req (snd (logout req d))) = Inr logged_out
   \<and> users (snd (logout req d)) = users d
   \<and> transactions (snd (logout req d)) = transactions d
   \<and> (\<forall>s. session_token_of req \<noteq> []
          \<and> find_one (\<lambda>s. s_session_token s = session_token_of req) (user_sessions d) = Some s
          \<longrightarrow> user_sessions (snd (logout req d)) = remove1 s (user_sessions d)
              \<and> length (user_sessions (snd (logout req d))) + 1 = length (user_sessions d))
   \<and> (session_token_of req = []
        \<or> (\<forall>s\<in>set (user_sessions d). s_session_token s \<noteq> session_token_of req)
        \<longrightarrow> snd (logout req d) = d)
   \<and> filter (\<lambda>s. s_session_token s \<noteq> session_token_of req) (user_sessions (snd (logout req d)))
       = filter (\<lambda>s. s_session_token s \<noteq> session_token_of req) (user_sessions d)
   \<and> (distinct (map s_session_token (user_sessions d))
        \<longrightarrow> snd (logout req (snd (logout req d))) = snd (logout req d))
   \<and> (length (filter (\<lambda>s. s_session_token s = session_token_of req) (user_sessions d)) \<le> 1
        \<longrightarrow> snd (logout req (snd (logout req d))) = snd (logout req d))
   \<and> (session_token_of req \<noteq> [] \<longrightarrow>
        length (filter (\<lambda>s. s_session_token s = session_token_of req)
                  (user_sessions (snd (logout req d))))
        = length (filter (\<lambda>s. s_session_token s = session_token_of req) (user_sessions d)) - 1)
   \<and> (\<forall>c. cookies req ''session_token'' = Some c \<and> c \<noteq> [] \<longrightarrow> session_token_of req = c)
   \<and> (\<forall>h. (cookies req ''session_token'' = None \<or> cookies req ''session_token'' = Some [])
          \<and> headers req ''authorization'' = Some h
          \<longrightarrow> session_token_of req = py_replace h ''Bearer '' [])
   \<and> ((cookies req ''session_token'' = None \<or> cookies req ''session_token'' = Some [])
          \<and> headers req ''authorization'' = None
          \<longrightarrow> session_token_of req = [] \<and> snd (logout req d) = d)
   \<and> (\<forall>c s. cookies req ''session_token'' = Some c \<and> c \<noteq> []
          \<and> find_one (\<lambda>s. s_session_token s = c) (user_sessions d) = Some s
          \<longrightarrow> user_sessions (snd (logout req d)) = remove1 s (user_sessions d))
   \<and> (\<forall>t s. (cookies req ''session_token'' = None \<or> cookies req ''session_token'' = Some [])
          \<and> headers req ''authorization'' = Some (''Bearer '' @ t) \<and> \<not> sublist ''Bearer '' t
          \<and> t \<noteq> [] \<and> find_one (\<lambda>s. s_session_token s = t) (user_sessions d) = Some s
          \<longrightarrow> user_sessions (snd (logout req d)) = remove1 s (user_sessions d))"
proof -
  let ?tok = "session_token_of req"
  let ?P = "\<lambda>s. s_session_token s = ?tok"
  have 1: "fst (logout req d) = Inr logged_out"
    by (simp add: logout_def Let_def)
  have 2: "fst (logout req (snd (logout req d))) = Inr logged_out"
    by (simp add: logout_def Let_def)
  have 3: "users (snd (logout req d)) = users d"
    by (simp add: logout_def Let_def)
  have 4: "transactions (snd (logout req d)) = transactions d"
    by (simp add: logout_def Let_def)
  have rm: "user_sessions (snd (logout req d)) = remove1 s (user_sessions d)"
    if "?tok \<noteq> []" and "find_one ?P (user_sessions d) = Some s" for s
    using that(1) by (simp add: logout_def Let_def delete_one_remove1[OF that(2)])
  have 5: "\<forall>s. ?tok \<noteq> [] \<and> find_one ?P (user_sessions d) = Some s
          \<longrightarrow> user_sessions (snd (logout req d)) = remove1 s (user_sessions d)
              \<and> length (user_sessions (snd (logout req d))) + 1 = length (user_sessions d)"
  proof (intro allI impI, elim conjE)
    fix s
    assume ne: "?tok \<noteq> []" and f: "find_one ?P (user_sessions d) = Some s"
    have "s \<in> set (user_sessions d)" using f by (simp add: find_one_Some)
    then show "user_sessions (snd (logout req d)) = remove1 s (user_sessions d)
              \<and> length (user_sessions (snd (logout req d))) + 1 = length (user_sessions d)"
      using rm[OF ne f] length_pos_if_in_set[of s "user_sessions d"]
      by (simp add: length_remove1)
  qed
  have 6: "?tok = [] \<or> (\<forall>s\<in>set (user_sessions d). s_session_token s \<noteq> ?tok)
        \<longrightarrow> snd (logout req d) = d"
    by (auto simp: logout_def Let_def delete_one_no_match)
  have 7: "filter (\<lambda>s. s_session_token s \<noteq> ?tok) (user_sessions (snd (logout req d)))
       = filter (\<lambda>s. s_session_token s \<noteq> ?tok) (user_sessions d)"
    using delete_one_other[of ?P "user_sessions d"] by (simp add: logout_def Let_def)
  have 8: "distinct (map s_session_token (user_sessions d))
        \<longrightarrow> snd (logout req (snd (logout req d))) = snd (logout req d)"
    by (simp add: logout_def Let_def delete_one_twice)
  have 9: "length (filter ?P (user_sessions d)) \<le> 1
        \<longrightarrow> snd (logout req (snd (logout req d))) = snd (logout req d)"
    by (simp add: logout_def Let_def delete_one_again)
  have 10: "?tok \<noteq> [] \<longrightarrow>
        length (filter ?P (user_sessions (snd (logout req d))))
        = length (filter ?P (user_sessions d)) - 1"
    by (simp add: logout_def Let_def delete_one_count)
  have 11: "\<forall>c. cookies req ''session_token'' = Some c \<and> c \<noteq> [] \<longrightarrow> ?tok = c"
    by (simp add: session_token_of_cookie)
  have 12: "\<forall>h. (cookies req ''session_token'' = None \<or> cookies req ''session_token'' = Some [])
          \<and> headers req ''authorization'' = Some h
          \<longrightarrow> ?tok = py_replace h ''Bearer '' []"
    using session_token_of_header[of req] by blast
  have 13: "(cookies req ''session_token'' = None \<or> cookies req ''session_token'' = Some [])
          \<and> headers req ''authorization'' = None
          \<longrightarrow> ?tok = [] \<and> snd (logout req d) = d"
    using session_token_of_nothing[of req] 6 by blast
  have 14: "\<forall>c s. cookies req ''session_token'' = Some c \<and> c \<noteq> []
          \<and> find_one (\<lambda>s. s_session_token s = c) (user_sessions d) = Some s
          \<longrightarrow> user_sessions (snd (logout req d)) = remove1 s (user_sessions d)"
  proof (intro allI impI, elim conjE)
    fix c s
    assume c: "cookies req ''session_token'' = Some c" "c \<noteq> []"
      and f: "find_one (\<lambda>s. s_session_token s = c) (user_sessions d) = Some s"
    have "?tok = c" using c by (rule session_token_of_cookie)
    then show "user_sessions (snd (logout req d)) = remove1 s (user_sessions d)"
      using rm[of s] c(2) f by simp
  qed
  have 15: "\<forall>t s. (cookies req ''session_token'' = None \<or> cookies req ''session_token'' = Some [])
          \<and> headers req ''authorization'' = Some (''Bearer '' @ t) \<and> \<not> sublist ''Bearer '' t
          \<and> t \<noteq> [] \<and> find_one (\<lambda>s. s_session_token s = t) (user_sessions d) = Some s
          \<longrightarrow> user_sessions (snd (logout req d)) = remove1 s (user_sessions d)"
  proof (intro allI impI, elim conjE)
    fix t s
    assume n: "cookies req ''session_token'' = None \<or> cookies req ''session_token'' = Some []"
      and h: "headers req ''authorization'' = Some (''Bearer '' @ t)" "\<not> sublist ''Bearer '' t"
      and t: "t \<noteq> []"
      and f: "find_one (\<lambda>s. s_session_token s = t) (user_sessions d) = Some s"
    have "?tok = t" using n h by (rule session_token_of_bearer)
    then show "user_sessions (snd (logout req d)) = remove1 s (user_sessions d)"
      using rm[of s] t f by simp
  qed
  show ?thesis using 1 2 3 4 5 6 7 8 9 10 11 12 13 14 15 by (intro conjI)
qed

theorem logout_always_succeeds_witness:
  "session_token_of alice_request \<noteq> []
   \<and> find_one (\<lambda>s. s_session_token s = session_token_of alice_request)
        (user_sessions example_db) = Some alice_session
   \<and> length (filter (\<lambda>s. s_session_token s = session_token_of alice_request)
        (user_sessions example_db)) \<le> 1
   \<and> snd (logout alice_request example_db) = example_db\<lparr>user_sessions := [bob_session]\<rparr>
   \<and> logout alice_request (snd (logout alice_request example_db))
       = (Inr logged_out, example_db\<lparr>user_sessions := [bob_session]\<rparr>)
   \<and> logout unknown_request example_db = (Inr logged_out, example_db)
   \<and> logout empty_request example_db = (Inr logged_out, example_db)
   \<and> cookies cookie_request ''session_token'' = Some ''tok-bob''
   \<and> find_one (\<lambda>s. s_session_token s = ''tok-bob'') (user_sessions example_db) = Some bob_session
   \<and> logout cookie_request example_db
       = (Inr logged_out, example_db\<lparr>user_sessions := [alice_session]\<rparr>)"
proof -
  have ne: "session_token_of alice_request \<noteq> []" by (simp add: alice_request_token)
  have f: "find_one (\<lambda>s. s_session_token s = session_token_of alice_request)
        (user_sessions example_db) = Some alice_session"
    by (simp add: alice_request_token find_one_def example_db_def alice_session_def)
  have one: "length (filter (\<lambda>s. s_session_token s = session_token_of alice_request)
        (user_sessions example_db)) \<le> 1"
    by (simp add: alice_request_token example_db_def alice_session_def bob_session_def)
  note L = logout_always_succeeds [of alice_request example_db]
  have s: "user_sessions (snd (logout alice_request example_db)) = [bob_session]"
    using L ne f by (simp add: example_db_def alice_session_def bob_session_def)
  have once: "snd (logout alice_request example_db) = example_db\<lparr>user_sessions := [bob_session]\<rparr>"
    using L s by (cases "snd (logout alice_request example_db)") (simp add: example_db_def)
  have twice: "logout alice_request (snd (logout alice_request example_db))
       = (Inr logged_out, example_db\<lparr>user_sessions := [bob_session]\<rparr>)"
    using L one once by (simp add: prod_eq_iff)
  have unk: "logout unknown_request example_db = (Inr logged_out, example_db)"
    using logout_always_succeeds [of unknown_request example_db]
    by (simp add: prod_eq_iff session_token_of_def unknown_request_def example_db_def
        alice_session_def bob_session_def)
  have emp: "logout empty_request example_db = (Inr logged_out, example_db)"
    using logout_always_succeeds [of empty_request example_db]
    by (simp add: prod_eq_iff empty_request_def)
  have ck: "cookies cookie_request ''session_token'' = Some ''tok-bob''"
    by (simp add: cookie_request_def)
  have fb: "find_one (\<lambda>s. s_session_token s = ''tok-bob'') (user_sessions example_db)
            = Some bob_session"
    by (simp add: find_one_def example_db_def alice_session_def bob_session_def)
  note C = logout_always_succeeds [of cookie_request example_db]
  have "user_sessions (snd (logout cookie_request example_db))
        = remove1 bob_session (user_sessions example_db)"
    using C ck fb by blast
  then have sc: "user_sessions (snd (logout cookie_request example_db)) = [alice_session]"
    by (simp add: example_db_def alice_session_def bob_session_def)
  have "snd (logout cookie_request example_db) = example_db\<lparr>user_sessions := [alice_session]\<rparr>"
    using C sc by (cases "snd (logout cookie_request example_db)") (simp add: example_db_def)
  then have cookie: "logout cookie_request example_db
       = (Inr logged_out, example_db\<lparr>user_sessions := [alice_session]\<rparr>)"
    using C by (simp add: prod_eq_iff)
  show ?thesis using ne f one once twice unk emp ck fb cookie by (intro conjI)
qed

lemma two_logins:
  "snd (get_session_data (example_provider carol_data) example_env2 login_request
          (snd (get_session_data (example_provider carol_data) example_env login_request
                  example_db))) = twice_db"
proof -
  have h: "headers login_request ''x-session-id'' = Some ''sid-1''"
    by (simp add: login_request_def)
  have p: "example_provider carol_data ''sid-1'' = Reply 200 carol_data"
    by (simp add: example_provider_def)
  have k: "subscript carol_data ''email'' = Inr ''carol@example.com''"
    "subscript carol_data ''name'' = Inr ''Carol''"
    "subscript carol_data ''picture'' = Inr ''https://example.com/carol.png''"
    "subscript carol_data ''session_token'' = Inr ''tok-carol''"
    by (simp_all add: subscript_def carol_data_def)
  have e: "expires_now example_env + timedelta_days 7 = 1709769600000002"
    "expires_now example_env2 + timedelta_days 7 = 1709769600000102"
    by (simp_all add: example_env_def example_env2_def timedelta_days_def)
  have f1: "find_one (\<lambda>u. u_email u = ''carol@example.com'') (users example_db) = None"
    by (simp add: find_one_def example_db_def alice_def bob_def)
  have first: "snd (get_session_data (example_provider carol_data) example_env login_request
                  example_db)
        = example_db\<lparr>users := [alice, bob, carol],
            user_sessions := [alice_session, bob_session, carol_session]\<rparr>"
    by (simp add: get_session_data_def h p k f1 create_session_def Let_def insert_one_def e)
       (simp add: example_db_def example_env_def carol_def carol_session_def)
  have f2: "find_one (\<lambda>u. u_email u = ''carol@example.com'') [alice, bob, carol] = Some carol"
    by (simp add: find_one_def alice_def bob_def carol_def)
  show ?thesis
    unfolding first
    by (simp add: get_session_data_def h p k f2 create_session_def Let_def insert_one_def e)
       (simp add: twice_db_def example_db_def example_env2_def carol_def carol_session2_def)
qed

lemma twice_db_logout:
  "snd (logout carol_request twice_db)
     = twice_db\<lparr>user_sessions := [alice_session, bob_session, carol_session2]\<rparr>"
  "snd (logout carol_request (twice_db\<lparr>user_sessions := [alice_session, bob_session, carol_session2]\<rparr>))
     = twice_db\<lparr>user_sessions := [alice_session, bob_session]\<rparr>"
  by (simp_all add: logout_def Let_def example_tokens twice_db_def alice_session_def
      bob_session_def carol_session_def carol_session2_def)

lemma carol_still_authenticated:
  "get_current_user carol_request example_now
     (twice_db\<lparr>user_sessions := [alice_session, bob_session, carol_session2]\<rparr>) = Some carol"
  by (simp add: get_current_user_def example_tokens find_one_def twice_db_def alice_session_def
      bob_session_def carol_session2_def alice_def bob_def carol_def example_now_def)

text \<open>
  Against claim C8 as it is written. The provider answers two logins with the same
  \<open>session_token\<close>, which leaves two session rows with that token. The first logout
  removes one of them and the token still resolves to the user; the second logout
  removes the other, so it changes the store again: logout is not idempotent here.
\<close>

theorem logout_always_succeeds_counterexample:
  "snd (get_session_data (example_provider carol_data) example_env2 login_request
          (snd (get_session_data (example_provider carol_data) example_env login_request
                  example_db))) = twice_db
   \<and> snd (logout carol_request twice_db)
       = twice_db\<lparr>user_sessions := [alice_session, bob_session, carol_session2]\<rparr>
   \<and> get_current_user carol_request example_now (snd (logout carol_request twice_db)) = Some carol
   \<and> snd (logout carol_request (snd (logout carol_request twice_db)))
       = twice_db\<lparr>user_sessions := [alice_session, bob_session]\<rparr>
   \<and> snd (logout carol_request (snd (logout carol_request twice_db)))
       \<noteq> snd (logout carol_request twice_db)"
proof -
  have "twice_db\<lparr>user_sessions := [alice_session, bob_session]\<rparr>
        \<noteq> twice_db\<lparr>user_sessions := [alice_session, bob_session, carol_session2]\<rparr>"
    by (simp add: twice_db_def example_db_def)
  then show ?thesis
    using two_logins by (simp add: twice_db_logout carol_still_authenticated)
qed

section \<open>Login exchange\<close>

text \<open>
  Claim C9. Let the request carry a session id, and let the provider answer it with
  status 200 and an object that has \<open>email\<close>, \<open>name\<close>, \<open>picture\<close> and \<open>session_token\<close>. Then
  \<open>get_session_data\<close> returns the user and the session token, where the user is the first
  stored user with that email if there is one, returned as stored (the provider's name
  and picture are not written to it) and with the user collection unchanged, and
  otherwise a new user with the drawn id, the provider's email, name and picture and the
  clock value, appended to the users. In both cases exactly one session row is appended:
  the user's id, the returned token, and \<open>expires_at\<close> seven days after the clock read.
  Transactions are not touched.
\<close>

theorem login_exchange:
  assumes "headers req ''x-session-id'' = Some session_id" and "session_id \<noteq> []"
    and "provider session_id = Reply 200 user_data"
    and "user_data ''email'' = Some email" and "user_data ''name'' = Some name"
    and "user_data ''picture'' = Some picture"
    and "user_data ''session_token'' = Some session_token"
  shows "\<exists>user d'. get_session_data provider env req d
                     = (Inr \<lparr>lr_user = user, lr_session_token = session_token\<rparr>, d')
           \<and> (case find_one (\<lambda>u. u_email u = email) (users d) of
                 None \<Rightarrow> user = \<lparr>u_id = new_user_id env, u_email = email, u_name = name,
                                   u_picture = picture, u_created_at = new_user_created_at env\<rparr>
                          \<and> users d' = users d @ [user]
               | Some existing \<Rightarrow> user = existing \<and> users d' = users d)
           \<and> user_sessions d' = user_sessions d @
                 [\<lparr>s_id = new_session_id env, s_user_id = u_id user,
                   s_session_token = session_token,
                   s_expires_at = expires_now env + timedelta_days 7,
                   s_created_at = new_session_created_at env\<rparr>]
           \<and> transactions d' = transactions d"
proof (cases "find_one (\<lambda>u. u_email u = email) (users d)")
  case None
  then show ?thesis
    using assms
    by (simp add: get_session_data_def subscript_def create_session_def Let_def insert_one_def)
next
  case (Some existing)
  then show ?thesis
    using assms
    by (simp add: get_session_data_def subscript_def create_session_def Let_def insert_one_def)
qed

theorem login_exchange_witness:
  "headers login_request ''x-session-id'' = Some ''sid-1''
   \<and> example_provider carol_data ''sid-1'' = Reply 200 carol_data
   \<and> find_one (\<lambda>u. u_email u = ''carol@example.com'') (users example_db) = None
   \<and> get_session_data (example_provider carol_data) example_env login_request example_db
       = (Inr \<lparr>lr_user = carol, lr_session_token = ''tok-carol''\<rparr>,
          example_db\<lparr>users := [alice, bob, carol],
            user_sessions := [alice_session, bob_session,
              \<lparr>s_id = ''s-3'', s_user_id = ''u-carol'', s_session_token = ''tok-carol'',
                s_expires_at = 1709769600000002, s_created_at = 1709164800000003\<rparr>]\<rparr>)
   \<and> find_one (\<lambda>u. u_email u = ''alice@example.com'') (users example_db) = Some alice
   \<and> get_session_data (example_provider alice_again_data) example_env login_request example_db
       = (Inr \<lparr>lr_user = alice, lr_session_token = ''tok-alice-2''\<rparr>,
          example_db\<lparr>user_sessions := [alice_session, bob_session,
              \<lparr>s_id = ''s-3'', s_user_id = ''u-alice'', s_session_token = ''tok-alice-2'',
                s_expires_at = 1709769600000002, s_created_at = 1709164800000003\<rparr>]\<rparr>)"
proof -
  have h: "headers login_request ''x-session-id'' = Some ''sid-1''"
    by (simp add: login_request_def)
  have ne: "''sid-1'' \<noteq> []" by simp
  have p1: "example_provider carol_data ''sid-1'' = Reply 200 carol_data"
    by (simp add: example_provider_def)
  have p2: "example_provider alice_again_data ''sid-1'' = Reply 200 alice_again_data"
    by (simp add: example_provider_def)
  have c: "carol_data ''email'' = Some ''carol@example.com''" "carol_data ''name'' = Some ''Carol''"
    "carol_data ''picture'' = Some ''https://example.com/carol.png''"
    "carol_data ''session_token'' = Some ''tok-carol''"
    by (simp_all add: carol_data_def)
  have a: "alice_again_data ''email'' = Some ''alice@example.com''"
    "alice_again_data ''name'' = Some ''Alice Renamed''"
    "alice_again_data ''picture'' = Some ''https://example.com/new.png''"
    "alice_again_data ''session_token'' = Some ''tok-alice-2''"
    by (simp_all add: alice_again_data_def)
  have f1: "find_one (\<lambda>u. u_email u = ''carol@example.com'') (users example_db) = None"
    by (simp add: find_one_def example_db_def alice_def bob_def)
  have f2: "find_one (\<lambda>u. u_email u = ''alice@example.com'') (users example_db) = Some alice"
    by (simp add: find_one_def example_db_def alice_def)
  have env: "new_user_id example_env = ''u-carol''" "new_user_created_at example_env = 1709164800000001"
    "new_session_id example_env = ''s-3''" "new_session_created_at example_env = 1709164800000003"
    "expires_now example_env + timedelta_days 7 = 1709769600000002"
    by (simp_all add: example_env_def timedelta_days_def)
  from login_exchange [where provider = "example_provider carol_data" and user_data = carol_data
      and env = example_env and d = example_db, OF h ne p1 c]
  obtain user d' where r: "get_session_data (example_provider carol_data) example_env login_request
        example_db = (Inr \<lparr>lr_user = user, lr_session_token = ''tok-carol''\<rparr>, d')"
    and u: "user = carol \<and> users d' = users example_db @ [user]"
    and s: "user_sessions d' = user_sessions example_db @
                 [\<lparr>s_id = ''s-3'', s_user_id = u_id user, s_session_token = ''tok-carol'',
                   s_expires_at = 1709769600000002, s_created_at = 1709164800000003\<rparr>]"
    and t: "transactions d' = transactions example_db"
    unfolding f1 env by (auto simp: carol_def)
  have d': "d' = example_db\<lparr>users := [alice, bob, carol],
            user_sessions := [alice_session, bob_session,
              \<lparr>s_id = ''s-3'', s_user_id = ''u-carol'', s_session_token = ''tok-carol'',
                s_expires_at = 1709769600000002, s_created_at = 1709164800000003\<rparr>]\<rparr>"
    using u s t by (cases d') (simp add: example_db_def carol_def)
  have new: "get_session_data (example_provider carol_data) example_env login_request example_db
       = (Inr \<lparr>lr_user = carol, lr_session_token = ''tok-carol''\<rparr>,
          example_db\<lparr>users := [alice, bob, carol],
            user_sessions := [alice_session, bob_session,
              \<lparr>s_id = ''s-3'', s_user_id = ''u-carol'', s_session_token = ''tok-carol'',
                s_expires_at = 1709769600000002, s_created_at = 1709164800000003\<rparr>]\<rparr>)"
    using r u d' by simp
  from login_exchange [where provider = "example_provider alice_again_data"
      and user_data = alice_again_data and env = example_env and d = example_db, OF h ne p2 a]
  obtain user2 d2 where r2: "get_session_data (example_provider alice_again_data) example_env
        login_request example_db = (Inr \<lparr>lr_user = user2, lr_session_token = ''tok-alice-2''\<rparr>, d2)"
    and u2: "user2 = alice \<and> users d2 = users example_db"
    and s2: "user_sessions d2 = user_sessions example_db @
                 [\<lparr>s_id = ''s-3'', s_user_id = u_id user2, s_session_token = ''tok-alice-2'',
                   s_expires_at = 1709769600000002, s_created_at = 1709164800000003\<rparr>]"
    and t2: "transactions d2 = transactions example_db"
    unfolding f2 env by auto
  have d2: "d2 = example_db\<lparr>user_sessions := [alice_session, bob_session,
              \<lparr>s_id = ''s-3'', s_user_id = ''u-alice'', s_session_token = ''tok-alice-2'',
                s_expires_at = 1709769600000002, s_created_at = 1709164800000003\<rparr>]\<rparr>"
    using u2 s2 t2 by (cases d2) (simp add: example_db_def alice_def)
  have again: "get_session_data (example_provider alice_again_data) example_env login_request example_db
       = (Inr \<lparr>lr_user = alice, lr_session_token = ''tok-alice-2''\<rparr>,
          example_db\<lparr>user_sessions := [alice_session, bob_session,
              \<lparr>s_id = ''s-3'', s_user_id = ''u-alice'', s_session_token = ''tok-alice-2'',
                s_expires_at = 1709769600000002, s_created_at = 1709164800000003\<rparr>]\<rparr>)"
    using r2 u2 d2 by simp
  show ?thesis using h p1 f1 new f2 again by (intro conjI)
qed

section \<open>Dashboard statistics\<close>

lemma category_loop_at:
  "category_loop cb ts c =
     (case filter (\<lambda>t. t_category t = c) ts of
        [] \<Rightarrow> cb c
      | _ # _ \<Rightarrow> Some (foldl (+) (case cb c of None \<Rightarrow> 0 | Some v \<Rightarrow> v)
                      (map t_amount (filter (\<lambda>t. t_category t = c) ts))))"
proof (induction ts arbitrary: cb)
  case Nil
  then show ?case by simp
next
  case (Cons t ts)
  show ?case
  proof (cases "t_category t = c")
    case True
    then show ?thesis
      by (simp add: Cons.IH Let_def split: list.splits)
  next
    case False
    then show ?thesis
      by (simp add: Cons.IH Let_def split: list.splits)
  qed
qed

lemma category_loop_empty:
  "category_loop Map.empty ts c =
     (if c \<in> t_category ` set ts
      then Some (py_sum (map t_amount (filter (\<lambda>t. t_category t = c) ts)))
      else None)"
proof -
  have "filter (\<lambda>t. t_category t = c) ts = [] \<longleftrightarrow> c \<notin> t_category ` set ts"
    by (auto simp: filter_empty_conv)
  then show ?thesis
    by (auto simp: category_loop_at py_sum_def split: list.splits)
qed

text \<open>
  Claim C3, amended. The dashboard works on the first 1000 of the caller's transactions
  (those whose \<open>user_id\<close> is the caller's id) in store order, all of them when the caller
  has at most 1000. Over those,
  \<open>total_income\<close> is the sum of the amounts with type \<open>income\<close>, \<open>total_expenses\<close> the sum of
  the amounts with type \<open>expense\<close>, \<open>balance\<close> their difference, \<open>transactions_count\<close> their
  number, and \<open>category_breakdown\<close> has exactly the categories that occur, each with the
  sum of the amounts of its transactions, whatever their type. Every sum starts from
  \<open>0\<close> and adds in store order. The scenario of the specification is the witness.
\<close>

theorem dashboard_stats_capped:
  assumes "get_current_user req now d = Some user"
  shows "(\<exists>stats. get_dashboard_stats req now d = Inr stats
           \<and> total_income stats
               = py_sum (map t_amount (filter (\<lambda>t. t_type t = ''income'')
                   (take 1000 (user_transactions (u_id user) d))))
           \<and> total_expenses stats
               = py_sum (map t_amount (filter (\<lambda>t. t_type t = ''expense'')
                   (take 1000 (user_transactions (u_id user) d))))
           \<and> balance stats = total_income stats - total_expenses stats
           \<and> transactions_count stats = min 1000 (length (user_transactions (u_id user) d))
           \<and> (\<forall>c. category_breakdown stats c =
                 (if c \<in> t_category ` set (take 1000 (user_transactions (u_id user) d))
                  then Some (py_sum (map t_amount (filter (\<lambda>t. t_category t = c)
                               (take 1000 (user_transactions (u_id user) d)))))
                  else None))
           \<and> (length (user_transactions (u_id user) d) \<le> 1000
                \<longrightarrow> take 1000 (user_transactions (u_id user) d) = user_transactions (u_id user) d))
       \<and> user_transactions (u_id user) d
           = filter (\<lambda>t. t_user_id t = u_id user) (transactions d)"
proof -
  have "user_transactions (u_id user) d
           = filter (\<lambda>t. t_user_id t = u_id user) (transactions d)"
    by (simp add: user_transactions_def)
  then show ?thesis
    using assms
    by (simp add: get_dashboard_stats_def Let_def to_list_def category_loop_empty min_def)
qed

theorem dashboard_stats_capped_witness:
  "get_current_user alice_request example_now example_db = Some alice
   \<and> user_transactions (u_id alice) example_db = [lunch, salary, coffee]
   \<and> get_dashboard_stats alice_request example_now example_db
       = Inr \<lparr>total_income = 2000, total_expenses = 70, balance = 1930, transactions_count = 3,
              category_breakdown = [''Food'' \<mapsto> 70, ''Salary'' \<mapsto> 2000]\<rparr>"
proof -
  from dashboard_stats_capped [OF alice_authenticated]
  obtain stats where r: "get_dashboard_stats alice_request example_now example_db = Inr stats"
    and i: "total_income stats = py_sum (map t_amount (filter (\<lambda>t. t_type t = ''income'')
                   (take 1000 (user_transactions (u_id alice) example_db))))"
    and e: "total_expenses stats = py_sum (map t_amount (filter (\<lambda>t. t_type t = ''expense'')
                   (take 1000 (user_transactions (u_id alice) example_db))))"
    and b: "balance stats = total_income stats - total_expenses stats"
    and n: "transactions_count stats = min 1000 (length (user_transactions (u_id alice) example_db))"
    and c: "\<forall>c. category_breakdown stats c =
                 (if c \<in> t_category ` set (take 1000 (user_transactions (u_id alice) example_db))
                  then Some (py_sum (map t_amount (filter (\<lambda>t. t_category t = c)
                               (take 1000 (user_transactions (u_id alice) example_db)))))
                  else None)"
    by blast
  have i': "total_income stats = 2000"
    unfolding i alice_transactions by (simp add: py_sum_def lunch_def salary_def coffee_def)
  have e': "total_expenses stats = 70"
    unfolding e alice_transactions by (simp add: py_sum_def lunch_def salary_def coffee_def)
  have b': "balance stats = 1930" unfolding b i' e' by simp
  have n': "transactions_count stats = 3" unfolding n alice_transactions by simp
  have c': "category_breakdown stats = [''Food'' \<mapsto> 70, ''Salary'' \<mapsto> 2000]"
  proof
    fix k
    show "category_breakdown stats k = [''Food'' \<mapsto> 70, ''Salary'' \<mapsto> 2000] k"
      using c [rule_format, of k] unfolding alice_transactions
      by (simp add: py_sum_def lunch_def salary_def coffee_def)
  qed
  have "stats = \<lparr>total_income = 2000, total_expenses = 70, balance = 1930,
           transactions_count = 3, category_breakdown = [''Food'' \<mapsto> 70, ''Salary'' \<mapsto> 2000]\<rparr>"
    using i' e' b' n' c' by (cases stats) simp
  then show ?thesis using alice_authenticated alice_transactions r by simp
qed

text \<open>
  Against claim C3 as it is written: a caller with 1001 transactions is told
  \<open>transactions_count = 1000\<close>, because the query ends in \<open>to_list(1000)\<close>.
\<close>

theorem dashboard_stats_counterexample:
  "get_current_user alice_request example_now many_db = Some alice
   \<and> length (user_transactions (u_id alice) many_db) = 1001
   \<and> count_of (get_dashboard_stats alice_request example_now many_db) = Inr 1000"
  using many_db_authenticated
  by (simp add: count_of_def get_dashboard_stats_def Let_def to_list_def many_db_transactions
      length_numbered)

section \<open>Monthly analytics\<close>

text \<open>
  Claim C4, amended. The monthly analytics works on the first 1000, in store order, of
  the caller's transactions whose date lies between \<open>end_date - 365 days\<close> and \<open>end_date\<close>,
  both included, where \<open>end_date\<close> is the clock at the call (all of them when there are
  at most 1000). The result has an entry exactly for the year-months \<open>strftime("%Y-%m")\<close>
  gives for the \<open>date\<close> of one of those transactions, so a month without one is absent.
  The \<open>income\<close> of an entry is the sum of the amounts of the month's transactions of type
  \<open>income\<close>; its \<open>expenses\<close> is the sum of the amounts of type \<open>expense\<close> whenever every
  transaction of the month has type \<open>income\<close> or \<open>expense\<close>. (What \<open>expenses\<close> holds when
  another type occurs is left open here.)
\<close>

theorem monthly_analytics_capped:
  assumes "get_current_user req now d = Some user"
  shows "(\<exists>m. get_monthly_analytics strftime req now end_date d = Inr m
           \<and> (\<forall>t\<in>set (windowed (u_id user) end_date d).
                 t \<in> set (transactions d) \<and> t_user_id t = u_id user
                 \<and> end_date - timedelta_days 365 \<le> t_date t \<and> t_date t \<le> end_date)
           \<and> (length (filter (in_window (u_id user) end_date) (transactions d)) \<le> 1000
                \<longrightarrow> windowed (u_id user) end_date d
                      = filter (in_window (u_id user) end_date) (transactions d))
           \<and> (\<forall>k. k \<notin> strftime ` t_date ` set (windowed (u_id user) end_date d) \<longrightarrow> m k = None)
           \<and> (\<forall>k\<in>strftime ` t_date ` set (windowed (u_id user) end_date d).
                 \<exists>e. m k = Some e
                   \<and> income e = py_sum (map t_amount (filter (\<lambda>t. t_type t = ''income'')
                                  (bucket strftime k (windowed (u_id user) end_date d))))
                   \<and> ((\<forall>t\<in>set (bucket strftime k (windowed (u_id user) end_date d)).
                          t_type t = ''income'' \<or> t_type t = ''expense'')
                        \<longrightarrow> expenses e = py_sum (map t_amount (filter (\<lambda>t. t_type t = ''expense'')
                                  (bucket strftime k (windowed (u_id user) end_date d)))))))
       \<and> windowed (u_id user) end_date d
           = take 1000 (filter (\<lambda>t. t_user_id t = u_id user
                                   \<and> end_date - 365 * 86400 * 1000000 \<le> t_date t
                                   \<and> t_date t \<le> end_date) (transactions d))
       \<and> (\<forall>k ts. bucket strftime k ts = filter (\<lambda>t. strftime (t_date t) = k) ts)"
proof -
  let ?W = "windowed (u_id user) end_date d"
  define m where "m = monthly_loop strftime Map.empty ?W"
  have r: "get_monthly_analytics strftime req now end_date d = Inr m"
    using assms by (simp add: get_monthly_analytics_def m_def windowed_def to_list_def)
  have w: "\<forall>t\<in>set ?W. t \<in> set (transactions d) \<and> t_user_id t = u_id user
                 \<and> end_date - timedelta_days 365 \<le> t_date t \<and> t_date t \<le> end_date"
  proof
    fix t assume "t \<in> set ?W"
    then have "t \<in> set (filter (in_window (u_id user) end_date) (transactions d))"
      unfolding windowed_def by (rule in_set_takeD)
    then show "t \<in> set (transactions d) \<and> t_user_id t = u_id user
                 \<and> end_date - timedelta_days 365 \<le> t_date t \<and> t_date t \<le> end_date"
      by (simp add: in_window_def)
  qed
  have a: "length (filter (in_window (u_id user) end_date) (transactions d)) \<le> 1000
                \<longrightarrow> ?W = filter (in_window (u_id user) end_date) (transactions d)"
    by (simp add: windowed_def)
  have n: "\<forall>k. k \<notin> strftime ` t_date ` set ?W \<longrightarrow> m k = None"
    by (simp add: m_def monthly_loop_at)
  have s: "\<forall>k\<in>strftime ` t_date ` set ?W.
                 \<exists>e. m k = Some e
                   \<and> income e = py_sum (map t_amount (filter (\<lambda>t. t_type t = ''income'')
                                  (bucket strftime k ?W)))
                   \<and> ((\<forall>t\<in>set (bucket strftime k ?W).
                          t_type t = ''income'' \<or> t_type t = ''expense'')
                        \<longrightarrow> expenses e = py_sum (map t_amount (filter (\<lambda>t. t_type t = ''expense'')
                                  (bucket strftime k ?W))))"
  proof
    fix k assume k: "k \<in> strftime ` t_date ` set ?W"
    have same: "(\<forall>t\<in>set (bucket strftime k ?W). t_type t = ''income'' \<or> t_type t = ''expense'')
       \<Longrightarrow> filter (\<lambda>t. t_type t \<noteq> ''income'') (bucket strftime k ?W)
           = filter (\<lambda>t. t_type t = ''expense'') (bucket strftime k ?W)"
      by (rule filter_cong) auto
    show "\<exists>e. m k = Some e
                   \<and> income e = py_sum (map t_amount (filter (\<lambda>t. t_type t = ''income'')
                                  (bucket strftime k ?W)))
                   \<and> ((\<forall>t\<in>set (bucket strftime k ?W).
                          t_type t = ''income'' \<or> t_type t = ''expense'')
                        \<longrightarrow> expenses e = py_sum (map t_amount (filter (\<lambda>t. t_type t = ''expense'')
                                  (bucket strftime k ?W))))"
      using k same by (simp add: m_def monthly_loop_at py_sum_def)
  qed
  have main: "\<exists>m. get_monthly_analytics strftime req now end_date d = Inr m
           \<and> (\<forall>t\<in>set ?W.
                 t \<in> set (transactions d) \<and> t_user_id t = u_id user
                 \<and> end_date - timedelta_days 365 \<le> t_date t \<and> t_date t \<le> end_date)
           \<and> (length (filter (in_window (u_id user) end_date) (transactions d)) \<le> 1000
                \<longrightarrow> ?W = filter (in_window (u_id user) end_date) (transactions d))
           \<and> (\<forall>k. k \<notin> strftime ` t_date ` set ?W \<longrightarrow> m k = None)
           \<and> (\<forall>k\<in>strftime ` t_date ` set ?W.
                 \<exists>e. m k = Some e
                   \<and> income e = py_sum (map t_amount (filter (\<lambda>t. t_type t = ''income'')
                                  (bucket strftime k ?W)))
                   \<and> ((\<forall>t\<in>set (bucket strftime k ?W).
                          t_type t = ''income'' \<or> t_type t = ''expense'')
                        \<longrightarrow> expenses e = py_sum (map t_amount (filter (\<lambda>t. t_type t = ''expense'')
                                  (bucket strftime k ?W)))))"
    using r w a n s by blast
  have "filter (in_window (u_id user) end_date) (transactions d)
        = filter (\<lambda>t. t_user_id t = u_id user
                       \<and> end_date - 365 * 86400 * 1000000 \<le> t_date t
                       \<and> t_date t \<le> end_date) (transactions d)"
    by (rule filter_cong) (simp_all add: in_window_def timedelta_days_def)
  then have win: "?W = take 1000 (filter (\<lambda>t. t_user_id t = u_id user
                                   \<and> end_date - 365 * 86400 * 1000000 \<le> t_date t
                                   \<and> t_date t \<le> end_date) (transactions d))"
    by (simp add: windowed_def)
  have bk: "\<forall>k ts. bucket strftime k ts = filter (\<lambda>t. strftime (t_date t) = k) ts"
    by (simp add: bucket_def)
  show ?thesis using main win bk by (intro conjI)
qed

theorem monthly_analytics_capped_witness:
  "get_current_user alice_request example_now example_db = Some alice
   \<and> windowed (u_id alice) example_now example_db = [lunch, salary, coffee]
   \<and> get_monthly_analytics strftime_Ym alice_request example_now example_now example_db
       = Inr [''2024-01'' \<mapsto> \<lparr>income = 0, expenses = 50\<rparr>,
              ''2024-02'' \<mapsto> \<lparr>income = 2000, expenses = 20\<rparr>]"
proof -
  have "\<exists>m. get_monthly_analytics strftime_Ym alice_request example_now example_now example_db = Inr m
     \<and> (\<forall>k. k \<notin> {''2024-01'', ''2024-02''} \<longrightarrow> m k = None)
     \<and> (\<forall>k\<in>{''2024-01'', ''2024-02''}.
              \<exists>e. m k = Some e
                \<and> income e = py_sum (map t_amount (filter (\<lambda>t. t_type t = ''income'')
                               (bucket strftime_Ym k [lunch, salary, coffee])))
                \<and> ((\<forall>t\<in>set (bucket strftime_Ym k [lunch, salary, coffee]).
                       t_type t = ''income'' \<or> t_type t = ''expense'')
                     \<longrightarrow> expenses e = py_sum (map t_amount (filter (\<lambda>t. t_type t = ''expense'')
                               (bucket strftime_Ym k [lunch, salary, coffee])))))"
    using monthly_analytics_capped [OF alice_authenticated, of strftime_Ym example_now]
    unfolding alice_windowed alice_buckets(3)
    by (elim exE conjE, intro exI conjI)
  then obtain m where
    r: "get_monthly_analytics strftime_Ym alice_request example_now example_now example_db = Inr m"
    and n: "\<forall>k. k \<notin> {''2024-01'', ''2024-02''} \<longrightarrow> m k = None"
    and s: "\<forall>k\<in>{''2024-01'', ''2024-02''}.
              \<exists>e. m k = Some e
                \<and> income e = py_sum (map t_amount (filter (\<lambda>t. t_type t = ''income'')
                               (bucket strftime_Ym k [lunch, salary, coffee])))
                \<and> ((\<forall>t\<in>set (bucket strftime_Ym k [lunch, salary, coffee]).
                       t_type t = ''income'' \<or> t_type t = ''expense'')
                     \<longrightarrow> expenses e = py_sum (map t_amount (filter (\<lambda>t. t_type t = ''expense'')
                               (bucket strftime_Ym k [lunch, salary, coffee]))))"
    by (elim exE conjE)
  have "''2024-01'' \<in> {''2024-01'', ''2024-02''}" by simp
  from bspec [OF s this] obtain e1 where e1: "m ''2024-01'' = Some e1"
    "income e1 = py_sum (map t_amount (filter (\<lambda>t. t_type t = ''income'') [lunch]))"
    "(\<forall>t\<in>set [lunch]. t_type t = ''income'' \<or> t_type t = ''expense'')
       \<longrightarrow> expenses e1 = py_sum (map t_amount (filter (\<lambda>t. t_type t = ''expense'') [lunch]))"
    unfolding alice_buckets by (elim exE conjE)
  have "income e1 = 0" "expenses e1 = 50"
    using e1(2,3) by (simp_all add: py_sum_def lunch_def)
  then have "e1 = \<lparr>income = 0, expenses = 50\<rparr>" by (cases e1) simp
  then have m1: "m ''2024-01'' = Some \<lparr>income = 0, expenses = 50\<rparr>" using e1(1) by simp
  have "''2024-02'' \<in> {''2024-01'', ''2024-02''}" by simp
  from bspec [OF s this] obtain e2 where e2: "m ''2024-02'' = Some e2"
    "income e2 = py_sum (map t_amount (filter (\<lambda>t. t_type t = ''income'') [salary, coffee]))"
    "(\<forall>t\<in>set [salary, coffee]. t_type t = ''income'' \<or> t_type t = ''expense'')
       \<longrightarrow> expenses e2
           = py_sum (map t_amount (filter (\<lambda>t. t_type t = ''expense'') [salary, coffee]))"
    unfolding alice_buckets by (elim exE conjE)
  have "income e2 = 2000" "expenses e2 = 20"
    using e2(2,3) by (simp_all add: py_sum_def salary_def coffee_def)
  then have "e2 = \<lparr>income = 2000, expenses = 20\<rparr>" by (cases e2) simp
  then have m2: "m ''2024-02'' = Some \<lparr>income = 2000, expenses = 20\<rparr>" using e2(1) by simp
  have "m = [''2024-01'' \<mapsto> \<lparr>income = 0, expenses = 50\<rparr>,
             ''2024-02'' \<mapsto> \<lparr>income = 2000, expenses = 20\<rparr>]"
  proof (rule ext)
    fix k
    show "m k = [''2024-01'' \<mapsto> \<lparr>income = 0, expenses = 50\<rparr>,
                 ''2024-02'' \<mapsto> \<lparr>income = 2000, expenses = 20\<rparr>] k"
    proof (cases "k = ''2024-01''")
      case True
      then show ?thesis using m1 by simp
    next
      case False
      then show ?thesis
      proof (cases "k = ''2024-02''")
        case True
        then show ?thesis using m2 by simp
      next
        case k2: False
        then have "m k = None" using False n by simp
        then show ?thesis using False k2 by simp
      qed
    qed
  qed
  then show ?thesis using alice_authenticated alice_windowed r by simp
qed

text \<open>
  Against claim C4 as it is written. A caller has 1001 transactions in the window, the
  last one the only one of January 2024: the result has no entry for \<open>2024-01\<close>, because
  the query ends in \<open>to_list(1000)\<close>. And a caller whose only transaction has the type
  \<open>transfer\<close> finds its amount under \<open>expenses\<close>: the loop tests for \<open>income\<close> and sends
  every other type to the \<open>else\<close> branch.
\<close>

theorem monthly_analytics_counterexample:
  "january \<in> set (filter (in_window (u_id alice) example_now) (transactions capped_db))
   \<and> strftime_Ym (t_date january) = ''2024-01''
   \<and> at_month ''2024-01''
        (get_monthly_analytics strftime_Ym alice_request example_now example_now capped_db)
       = Inr None
   \<and> filter (in_window (u_id alice) example_now) (transactions transfer_db) = [transfer]
   \<and> t_type transfer \<noteq> ''expense''
   \<and> at_month ''2024-02''
        (get_monthly_analytics strftime_Ym alice_request example_now example_now transfer_db)
       = Inr (Some \<lparr>income = 0, expenses = 30\<rparr>)"
proof -
  have 1: "january \<in> set (filter (in_window (u_id alice) example_now) (transactions capped_db))"
    using january_in_window by (simp add: capped_db_def)
  have 2: "strftime_Ym (t_date january) = ''2024-01''"
    by (simp add: january_def strftime_Ym_examples)
  have "''2024-01'' \<notin> strftime_Ym ` t_date ` set (numbered 1000)"
    using numbered_date[of 1000] by (auto simp: strftime_Ym_examples)
  then have 3: "at_month ''2024-01''
        (get_monthly_analytics strftime_Ym alice_request example_now example_now capped_db)
       = Inr None"
    using capped_db_authenticated capped_db_windowed
    by (simp add: at_month_def get_monthly_analytics_def to_list_def monthly_loop_at
        flip: windowed_def)
  have 4: "filter (in_window (u_id alice) example_now) (transactions transfer_db) = [transfer]"
    by (simp add: transfer_db_def in_window_def transfer_def alice_def example_now_def
        timedelta_days_def)
  have 5: "t_type transfer \<noteq> ''expense''" by (simp add: transfer_def)
  have 6: "at_month ''2024-02''
        (get_monthly_analytics strftime_Ym alice_request example_now example_now transfer_db)
       = Inr (Some \<lparr>income = 0, expenses = 30\<rparr>)"
    using transfer_db_authenticated
    by (simp add: at_month_def get_monthly_analytics_def to_list_def 4 Let_def)
       (simp add: transfer_def strftime_Ym_examples)
  show ?thesis using 1 2 3 4 5 6 by (intro conjI)
qed

section \<open>Listing transactions\<close>

text \<open>
  Claim C5, amended. Let the request resolve to a user and let both date bounds parse
  (a bound that is missing or the empty string counts as not supplied; a non-empty one
  is read by \<open>fromisoformat\<close> after \<open>Z\<close> is replaced by \<open>+00:00\<close>). Then the list operation
  returns the first 1000 rows of an arrangement, by date descending, of exactly those of
  the caller's transactions that satisfy each filter that applies: category equal to
  the supplied one when a non-empty category is supplied, \<open>date \<ge> start\<close> when a start
  is supplied, \<open>date \<le> end\<close> when an end is supplied. So the rows are in date-descending
  order, there are at most 1000 of them, and they are all the matching rows when at most
  1000 match. In the scenario, \<open>category=Food\<close> gives the two Food rows, latest first.
\<close>

theorem list_transactions:
  assumes "get_current_user req now d = Some user"
    and "date_bound fromisoformat start_date = Inr gte"
    and "date_bound fromisoformat end_date = Inr lte"
  shows "\<exists>rows rest.
           get_transactions fromisoformat req now category start_date end_date d = Inr rows
           \<and> mset (rows @ rest)
               = mset (filter (\<lambda>t. t_user_id t = u_id user
                         \<and> (\<forall>c. category = Some c \<and> c \<noteq> [] \<longrightarrow> t_category t = c)
                         \<and> (\<forall>lo. gte = Some lo \<longrightarrow> lo \<le> t_date t)
                         \<and> (\<forall>hi. lte = Some hi \<longrightarrow> t_date t \<le> hi)) (transactions d))
           \<and> date_descending (rows @ rest)
           \<and> length rows = min 1000 (length (rows @ rest))
           \<and> (gte = None \<longleftrightarrow> \<not> truthy start_date)
           \<and> (\<forall>lo. gte = Some lo \<longrightarrow>
                 (\<exists>v. start_date = Some v \<and> v \<noteq> []
                      \<and> fromisoformat (py_replace v ''Z'' ''+00:00'') = Some lo))
           \<and> (lte = None \<longleftrightarrow> \<not> truthy end_date)
           \<and> (\<forall>hi. lte = Some hi \<longrightarrow>
                 (\<exists>v. end_date = Some v \<and> v \<noteq> []
                      \<and> fromisoformat (py_replace v ''Z'' ''+00:00'') = Some hi))"
proof -
  define found where
    "found = sort_date_desc (filter (list_query (u_id user) category gte lte) (transactions d))"
  define rows where "rows = take 1000 found"
  define rest where "rest = drop 1000 found"
  have all: "rows @ rest = found" by (simp add: rows_def rest_def)
  have r: "get_transactions fromisoformat req now category start_date end_date d = Inr rows"
    using assms by (simp add: get_transactions_def to_list_def rows_def found_def)
  have "filter (list_query (u_id user) category gte lte) (transactions d)
        = filter (\<lambda>t. t_user_id t = u_id user
                         \<and> (\<forall>c. category = Some c \<and> c \<noteq> [] \<longrightarrow> t_category t = c)
                         \<and> (\<forall>lo. gte = Some lo \<longrightarrow> lo \<le> t_date t)
                         \<and> (\<forall>hi. lte = Some hi \<longrightarrow> t_date t \<le> hi)) (transactions d)"
    by (rule filter_cong) (simp_all add: list_query_iff)
  then have m: "mset (rows @ rest)
               = mset (filter (\<lambda>t. t_user_id t = u_id user
                         \<and> (\<forall>c. category = Some c \<and> c \<noteq> [] \<longrightarrow> t_category t = c)
                         \<and> (\<forall>lo. gte = Some lo \<longrightarrow> lo \<le> t_date t)
                         \<and> (\<forall>hi. lte = Some hi \<longrightarrow> t_date t \<le> hi)) (transactions d))"
    unfolding all by (simp add: found_def mset_sort_date_desc)
  have s: "date_descending (rows @ rest)"
    unfolding all found_def by (rule date_descending_sort)
  have l: "length rows = min 1000 (length (rows @ rest))"
    unfolding all by (simp add: rows_def min_def)
  note b1 = date_bound_Inr [OF assms(2)]
  note b2 = date_bound_Inr [OF assms(3)]
  show ?thesis
    using r m s l b1 b2 by blast
qed

theorem list_transactions_witness:
  "get_current_user alice_request example_now example_db = Some alice
   \<and> date_bound example_fromisoformat None = Inr None
   \<and> get_transactions example_fromisoformat alice_request example_now (Some ''Food'') None None
        example_db = Inr [coffee, lunch]
   \<and> date_descending [coffee, lunch]
   \<and> date_bound example_fromisoformat (Some ''2024-02-01T00:00:00Z'')
       = Inr (Some 1706745600000000)
   \<and> date_bound example_fromisoformat (Some ''2024-02-20T00:00:00Z'')
       = Inr (Some 1708387200000000)
   \<and> get_transactions example_fromisoformat alice_request example_now None
        (Some ''2024-02-01T00:00:00Z'') (Some ''2024-02-20T00:00:00Z'') example_db = Inr [coffee]
   \<and> date_descending [coffee]"
proof -
  from list_transactions [OF alice_authenticated example_bounds(1) example_bounds(1),
      of "Some ''Food''"]
  obtain rows rest where
    r: "get_transactions example_fromisoformat alice_request example_now (Some ''Food'') None None
          example_db = Inr rows"
    and s: "date_descending (rows @ rest)"
    by (elim exE conjE)
  from r have "rows = [coffee, lunch]" by (simp add: list_food)
  with s have 1: "date_descending [coffee, lunch]" by (simp add: date_descending_prefix)
  from list_transactions [OF alice_authenticated example_bounds(2) example_bounds(3), of None]
  obtain rows' rest' where
    r': "get_transactions example_fromisoformat alice_request example_now None
          (Some ''2024-02-01T00:00:00Z'') (Some ''2024-02-20T00:00:00Z'') example_db = Inr rows'"
    and s': "date_descending (rows' @ rest')"
    by (elim exE conjE)
  from r' have "rows' = [coffee]" by (simp add: list_february)
  with s' have 2: "date_descending [coffee]" using date_descending_prefix by blast
  show ?thesis
    using alice_authenticated example_bounds list_food list_february 1 2 by (intro conjI)
qed

text \<open>
  Against claim C5 as it is written: a category filter that is supplied as the empty
  string is not applied (\<open>if category:\<close>), so rows whose category is not the empty string
  are returned, here all three of the caller's.
\<close>

theorem list_transactions_counterexample:
  "filter (\<lambda>t. t_category t = []) (user_transactions (u_id alice) example_db) = []
   \<and> get_transactions example_fromisoformat alice_request example_now (Some []) None None
        example_db = Inr [salary, coffee, lunch]"
  using list_empty_category
  by (simp add: alice_transactions lunch_def salary_def coffee_def)

end
